theory Spec2Isabelle
  imports Main "HOL-Library.Word"
begin

section \<open>Go values: errors, panics, durations\<close>

text \<open>
  A Go \<open>string\<close> is a sequence of bytes; it is modelled as \<^typ>\<open>string\<close>, whose
  characters are bytes. A Go \<open>error\<close> is a value of the datatype below: the API client's
  \<open>*anthropic.APIError\<close> (its \<open>Type\<close> and \<open>Message\<close>), an \<open>errors.New\<close> string, the
  error of a cancelled context, an operating system error on a path (the operation and
  the path), \<open>fmt.Errorf("...%w", err)\<close>, which wraps an error (possibly the nil
  error), and \<open>fmt.Errorf("...%v", err)\<close>, which formats an error without wrapping it.
\<close>

datatype go_error =
    APIError string string
  | ErrorString string
  | ContextError string
  | PathError string string
  | Errorf string "go_error option"
  | Errorf_v string go_error

text \<open>A call either returns or panics.\<close>

datatype 'a outcome = Return 'a | Panic string

text \<open>\<open>errors.As(err, &apiErr)\<close> walks the chain of wrapped errors to the first
  \<open>*anthropic.APIError\<close>.\<close>

fun errors_As_APIError :: "go_error \<Rightarrow> (string \<times> string) option" where
  "errors_As_APIError (APIError t m) = Some (t, m)"
| "errors_As_APIError (Errorf f (Some e)) = errors_As_APIError e"
| "errors_As_APIError e = None"

definition ErrTypeRateLimit :: string where
  "ErrTypeRateLimit = ''rate_limit_error''"

text \<open>The condition \<open>errors.As(err, &apiErr) && apiErr.IsRateLimitErr()\<close>.\<close>

definition IsRateLimitErr :: "go_error \<Rightarrow> bool" where
  "IsRateLimitErr err =
     (case errors_As_APIError err of
        None \<Rightarrow> False
      | Some (t, m) \<Rightarrow> t = ErrTypeRateLimit)"

text \<open>\<open>time.Duration\<close> counts nanoseconds; instants of the clock are nanoseconds too.\<close>

definition Second :: int where
  "Second = 1000000000"

definition Minute :: int where
  "Minute = 60 * Second"

section \<open>The API client's requests and responses\<close>

record MessageSystemPart =
  Type :: string
  Text :: string
  CacheControl :: "string option"

text \<open>\<open>req_Temperature\<close> holds the bits of the \<open>float32\<close>; it is only copied.\<close>

record MessagesRequest =
  req_Model :: string
  MultiSystem :: "MessageSystemPart list"
  Messages :: "string list"
  req_Temperature :: "32 word"
  req_MaxTokens :: int

record MessagesUsage =
  InputTokens :: "64 word"
  OutputTokens :: "64 word"

text \<open>\<open>Content\<close> lists the text of each content block of the response.\<close>

record MessagesResponse =
  Content :: "string list"
  Usage :: MessagesUsage

definition GetFirstContentText :: "MessagesResponse \<Rightarrow> string" where
  "GetFirstContentText resp = (case Content resp of [] \<Rightarrow> [] | t # ts \<Rightarrow> t)"

section \<open>Translator data\<close>

record Config =
  APIKey :: string
  Model :: string
  Temperature :: "32 word"
  MaxTokens :: int
  CacheTTL :: int
  CacheMaxCost :: int
  TranslationGuidelines :: string
  SystemPrompt :: string

text \<open>
  Go's \<open>int\<close> is a 64-bit machine integer and \<open>atomic.Uint64\<close> an unsigned one: both are
  \<^typ>\<open>64 word\<close>, whose addition wraps. \<open>ModelUsage\<close> is a Go map, which can be nil
  (\<open>None\<close>): reading a nil map gives the zero value, assigning to it panics.
\<close>

record UsageMetadata =
  TotalCalls :: "64 word"
  LastUsed :: int
  ModelUsage :: "(string \<rightharpoonup> 64 word) option"
  PromptExamples :: "string list"
  TokenUsage :: "64 word"
  TokenUsageList :: "MessagesUsage list"

text \<open>
  The cache is the third-party \<open>ristretto\<close> cache, whose code is not part of the
  repository. The model follows the contract of the two calls the translator makes.
  The cache has a store, which \<open>Get\<close> reads, and a buffer of queued items. \<open>Get\<close> finds
  an entry of the store that has not expired. \<open>SetWithTTL\<close> with a negative time-to-live
  does nothing; otherwise the item expires at \<open>now + ttl\<close> (never, for a zero
  time-to-live), and it replaces at once an entry the store already has for the key, or
  else is queued: it is not in the store yet (the cache drops it at once when its
  buffer is full; the model leaves every drop to \<open>processItems\<close>). The translator
  ignores the result of \<open>SetWithTTL\<close> and never waits for the buffer.
  \<open>processItems\<close> is the cache's own goroutine taking the queued items in order: an
  item its policy admits enters the store, another is dropped. When it runs, and what it admits, is not in the hands of
  the translator. Eviction of stored entries is the cache's too: a theorem that needs an
  entry in the store says so.
\<close>

record cache_item =
  item_value :: string
  expiration :: "int option"

record ristretto =
  store :: "string \<rightharpoonup> cache_item"
  setBuf :: "(string \<times> cache_item) list"

definition cache_Get :: "ristretto \<Rightarrow> string \<Rightarrow> int \<Rightarrow> string option" where
  "cache_Get c key now =
     (case store c key of
        None \<Rightarrow> None
      | Some it \<Rightarrow>
          (case expiration it of
             None \<Rightarrow> Some (item_value it)
           | Some t \<Rightarrow> if t < now then None else Some (item_value it)))"

definition cache_SetWithTTL ::
  "ristretto \<Rightarrow> string \<Rightarrow> string \<Rightarrow> int \<Rightarrow> int \<Rightarrow> ristretto" where
  "cache_SetWithTTL c key v ttl now =
     (if ttl < 0 then c
      else
        (let it = \<lparr>item_value = v,
                   expiration = (if ttl = 0 then None else Some (now + ttl))\<rparr>
         in if store c key \<noteq> None then c\<lparr>store := (store c)(key \<mapsto> it)\<rparr>
            else c\<lparr>setBuf := setBuf c @ [(key, it)]\<rparr>))"

definition processItems :: "(string \<Rightarrow> bool) \<Rightarrow> ristretto \<Rightarrow> ristretto" where
  "processItems admit c =
     \<lparr>store = fold (\<lambda>(key, it) s. if admit key then s(key \<mapsto> it) else s) (setBuf c) (store c),
      setBuf = []\<rparr>"

text \<open>
  The struct \<open>Anthropic\<close>. The client is the API key with the beta version it was
  created with. The mutex \<open>mu\<close> serialises the calls of \<open>Translate\<close>; the model runs one
  call at a time and has no field for it. \<open>config\<close> is a pointer to the caller's
  \<open>Config\<close> in the source; the model holds the value it points to.
\<close>

record Anthropic =
  client :: "string \<times> string"
  cache :: ristretto
  config :: Config
  metadata :: UsageMetadata

section \<open>The world outside the translator\<close>

text \<open>Lines written to standard output: \<open>fmt.Printf(format, err)\<close> and
  \<open>fmt.Println(line)\<close>.\<close>

datatype out_line = Printf string go_error | Println string

text \<open>
  What a call changes outside the translator: the clock, standard output, the files,
  the requests the backend has received so far (in order), and the backoff timers that
  have fired (their durations, in order).
\<close>

record world =
  clock :: int
  stdout :: "out_line list"
  files :: "string \<rightharpoonup> string"
  api_requests :: "MessagesRequest list"
  timers :: "int list"

text \<open>
  A parsed HTML document as the handlers read it: its elements in document order, each
  with its attributes and with the string \<open>s.Html()\<close> returns for it (the inner HTML,
  empty when rendering fails).
\<close>

record html_element =
  attrs :: "(string \<times> string) list"
  inner_html :: string

text \<open>
  What the environment answers; none of it is code of the repository.
  \<open>CreateMessages n req\<close> is the backend's answer to \<open>req\<close> when it is the request
  number \<open>n\<close> (from 0) that the backend receives. \<open>sha256_Sum256\<close> is the hash function
  of \<open>crypto/sha256\<close>. \<open>Sprintf3\<close> is \<open>fmt.Sprintf\<close> with a format and three string
  arguments; \<open>technicalPrompt\<close> and \<open>psychologyPrompt\<close> are the embedded files
  \<open>prompts/technical.txt\<close> and \<open>prompts/psychology.txt\<close>.
  \<open>ReadFile_err\<close>, \<open>MkdirAll_err\<close> and \<open>WriteFile_err\<close> are the failures of the file
  system on a path (\<open>None\<close>: no failure), \<open>NewCache_err\<close> the failure of
  \<open>ristretto.NewCache\<close>. \<open>json_MarshalIndent\<close> and \<open>json_Unmarshal\<close> are the
  encoder and the decoder of \<open>encoding/json\<close>; the decoder returns the destination as
  it left it, with the error if it reports one. \<open>path_Join\<close> is \<open>path.Join\<close> of
  two elements and \<open>NewDocumentFromReader\<close> the HTML parser of \<open>goquery\<close>.
\<close>

record env =
  CreateMessages :: "nat \<Rightarrow> MessagesRequest \<Rightarrow> go_error + MessagesResponse"
  sha256_Sum256 :: "string \<Rightarrow> string"
  Sprintf3 :: "string \<Rightarrow> string \<Rightarrow> string \<Rightarrow> string \<Rightarrow> string"
  technicalPrompt :: string
  psychologyPrompt :: string
  Getenv :: "string \<Rightarrow> string"
  NewCache_err :: "go_error option"
  ReadFile_err :: "string \<Rightarrow> go_error option"
  MkdirAll_err :: "string \<Rightarrow> go_error option"
  WriteFile_err :: "string \<Rightarrow> go_error option"
  json_MarshalIndent :: "UsageMetadata \<Rightarrow> go_error + string"
  json_Unmarshal :: "string \<Rightarrow> UsageMetadata \<Rightarrow> go_error option \<times> UsageMetadata"
  path_Join :: "string \<Rightarrow> string \<Rightarrow> string"
  NewDocumentFromReader :: "string \<Rightarrow> go_error + html_element list"

text \<open>
  A \<open>context.Context\<close> as \<open>createMessageWithRetry\<close> sees it: \<open>Done k\<close> tells whether the
  \<open>select\<close> of the backoff after attempt \<open>k\<close> (from 0) takes the branch \<open>ctx.Done()\<close>
  rather than the timer's, and \<open>Err\<close> is \<open>ctx.Err()\<close> then.
\<close>

record go_context =
  Done :: "nat \<Rightarrow> bool"
  Err :: go_error

definition context_Background :: go_context where
  "context_Background = \<lparr>Done = (\<lambda>k. False), Err = ContextError ''context canceled''\<rparr>"

section \<open>createMessageWithRetry\<close>

definition maxRetries :: nat where
  "maxRetries = 3"

text \<open>\<open>a.client.CreateMessages(ctx, req)\<close>: the backend receives the request and
  answers.\<close>

definition client_CreateMessages ::
  "env \<Rightarrow> MessagesRequest \<Rightarrow> world \<Rightarrow> (go_error + MessagesResponse) \<times> world" where
  "client_CreateMessages e req w =
     (CreateMessages e (length (api_requests w)) req,
      w\<lparr>api_requests := api_requests w @ [req]\<rparr>)"

text \<open>The branch \<open>case <-time.After(d)\<close> of the \<open>select\<close>: the timer fires after \<open>d\<close>,
  then the line is printed.\<close>

definition time_After :: "int \<Rightarrow> world \<Rightarrow> world" where
  "time_After d w =
     w\<lparr>clock := clock w + d, timers := timers w @ [d],
       stdout := stdout w @ [Println ([CHR 0x09, CHR 0x09, CHR 0x09] @ ''retrying after rate limit error'')]\<rparr>"

text \<open>The \<open>for\<close> loop, from the iteration with counter \<open>retries\<close> on; \<open>err\<close> is the
  variable \<open>err\<close> of the source (\<open>None\<close>: nil).\<close>

function createMessageWithRetry_loop ::
  "env \<Rightarrow> go_context \<Rightarrow> MessagesRequest \<Rightarrow> nat \<Rightarrow> go_error option \<Rightarrow> world
    \<Rightarrow> (go_error + MessagesResponse) \<times> world" where
  "createMessageWithRetry_loop e ctx req retries err w =
     (if retries < maxRetries then
        (case client_CreateMessages e req w of
           (Inr resp, w1) \<Rightarrow> (Inr resp, w1)
         | (Inl err1, w1) \<Rightarrow>
             if IsRateLimitErr err1 then
               (if Done ctx retries then (Inl (Err ctx), w1)
                else createMessageWithRetry_loop e ctx req (retries + 1) (Some err1)
                       (time_After (int (retries + 1) * Second) w1))
             else (Inl err1, w1))
      else (Inl (Errorf ''max retries reached: %w'' err), w))"
  by pat_completeness auto
termination
  by (relation "measure (\<lambda>(e, ctx, req, retries, err, w). maxRetries - retries)") auto

definition createMessageWithRetry ::
  "env \<Rightarrow> go_context \<Rightarrow> MessagesRequest \<Rightarrow> world \<Rightarrow> (go_error + MessagesResponse) \<times> world" where
  "createMessageWithRetry e ctx req w = createMessageWithRetry_loop e ctx req 0 None w"

declare createMessageWithRetry_loop.simps [simp del]

section \<open>Metadata file\<close>

definition getMetadataFilePath :: string where
  "getMetadataFilePath = ''unpackage/translator_metadata.json''"

text \<open>\<open>filepath.Dir(a.getMetadataFilePath())\<close>.\<close>

definition getMetadataFileDir :: string where
  "getMetadataFileDir = ''unpackage''"

definition os_ReadFile :: "env \<Rightarrow> string \<Rightarrow> world \<Rightarrow> go_error + string" where
  "os_ReadFile e name w =
     (case ReadFile_err e name of
        Some err \<Rightarrow> Inl err
      | None \<Rightarrow>
          (case files w name of
             None \<Rightarrow> Inl (PathError ''open'' name)
           | Some data \<Rightarrow> Inr data))"

definition write_stdout :: "out_line \<Rightarrow> world \<Rightarrow> world" where
  "write_stdout l w = w\<lparr>stdout := stdout w @ [l]\<rparr>"

definition loadMetadata :: "env \<Rightarrow> Anthropic \<times> world \<Rightarrow> Anthropic \<times> world" where
  "loadMetadata e s =
     (case s of (a, w) \<Rightarrow>
        (case os_ReadFile e getMetadataFilePath w of
           Inl err \<Rightarrow> (a, w)
         | Inr data \<Rightarrow>
             (case json_Unmarshal e data (metadata a) of
                (None, m) \<Rightarrow> (a\<lparr>metadata := m\<rparr>, w)
              | (Some err, m) \<Rightarrow>
                  (a\<lparr>metadata := m\<rparr>,
                   write_stdout (Printf (''Error unmarshaling metadata: %v'' @ [CHR 0x0A]) err) w))))"

definition saveMetadata :: "env \<Rightarrow> Anthropic \<Rightarrow> world \<Rightarrow> world" where
  "saveMetadata e a w =
     (case json_MarshalIndent e (metadata a) of
        Inl err \<Rightarrow> write_stdout (Printf (''Error marshaling metadata: %v'' @ [CHR 0x0A]) err) w
      | Inr data \<Rightarrow>
          (case MkdirAll_err e getMetadataFileDir of
             Some err \<Rightarrow> write_stdout (Printf (''Error creating directory: %v'' @ [CHR 0x0A]) err) w
           | None \<Rightarrow>
               (case WriteFile_err e getMetadataFilePath of
                  Some err \<Rightarrow>
                    write_stdout (Printf (''Error writing metadata file: %v'' @ [CHR 0x0A]) err) w
                | None \<Rightarrow> w\<lparr>files := (files w)(getMetadataFilePath \<mapsto> data)\<rparr>)))"

section \<open>GetAnthropicTranslator\<close>

text \<open>The package variables \<open>_anthropic\<close> (nil at start) and \<open>anthropicOnce\<close> (whether
  its function has run).\<close>

record globals =
  anthropic_ptr :: "Anthropic option"
  anthropicOnce :: bool

definition initial_globals :: globals where
  "initial_globals = \<lparr>anthropic_ptr = None, anthropicOnce = False\<rparr>"

definition ModelClaude3Dot5SonnetLatest :: string where
  "ModelClaude3Dot5SonnetLatest = ''claude-3-5-sonnet-latest''"

text \<open>The configuration built when \<open>cfg == nil\<close>; \<open>0x3E99999A\<close> is the \<open>float32\<close>
  0.3.\<close>

definition default_Config :: "env \<Rightarrow> Config" where
  "default_Config e =
     \<lparr>APIKey = Getenv e ''ANTHROPIC_KEY'', Model = ModelClaude3Dot5SonnetLatest,
      Temperature = 0x3E99999A, MaxTokens = 8192, CacheTTL = 0, CacheMaxCost = 0,
      TranslationGuidelines = [], SystemPrompt = []\<rparr>"

text \<open>The assignments to the fields of \<open>cfg\<close> after the check of the API key: the
  guidelines and the system prompt from the environment when they are empty, then
  \<open>CacheTTL\<close> and \<open>CacheMaxCost\<close>.\<close>

definition configure :: "env \<Rightarrow> Config \<Rightarrow> Config" where
  "configure e cfg1 =
     (let cfg2 = (if TranslationGuidelines cfg1 = []
                  then cfg1\<lparr>TranslationGuidelines := Getenv e ''TRANSLATION_GUIDELINES''\<rparr>
                  else cfg1);
          cfg3 = (if SystemPrompt cfg2 = []
                  then cfg2\<lparr>SystemPrompt := Getenv e ''SYSTEM_PROMPT''\<rparr>
                  else cfg2)
      in cfg3\<lparr>CacheTTL := 15 * Minute, CacheMaxCost := 10000000\<rparr>)"

text \<open>The metadata the constructor starts from, and the struct it builds.\<close>

definition new_UsageMetadata :: UsageMetadata where
  "new_UsageMetadata =
     \<lparr>TotalCalls = 0, LastUsed = 0, ModelUsage = Some Map.empty, PromptExamples = [],
      TokenUsage = 0, TokenUsageList = []\<rparr>"

definition new_Anthropic :: "Config \<Rightarrow> Anthropic" where
  "new_Anthropic cfg =
     \<lparr>client = (APIKey cfg, ''prompt-caching-2024-07-31''),
      cache = \<lparr>store = Map.empty, setBuf = []\<rparr>, config = cfg,
      metadata = new_UsageMetadata\<rparr>"

text \<open>The function passed to \<open>anthropicOnce.Do\<close>: it returns the variable \<open>err\<close> it
  assigns, with the package variable and the world as it leaves them.\<close>

definition anthropicOnce_body ::
  "env \<Rightarrow> Config option \<Rightarrow> globals \<times> world \<Rightarrow> go_error option \<times> (globals \<times> world)" where
  "anthropicOnce_body e cfg s =
     (case s of (g, w) \<Rightarrow>
        (let cfg1 = (case cfg of None \<Rightarrow> default_Config e | Some c \<Rightarrow> c) in
         if APIKey cfg1 = [] then (Some (ErrorString ''missing ANTHROPIC_KEY''), (g, w))
         else
           (case NewCache_err e of
              Some cacheErr \<Rightarrow>
                (Some (Errorf ''failed to create cache: %w'' (Some cacheErr)), (g, w))
            | None \<Rightarrow>
                (case loadMetadata e (new_Anthropic (configure e cfg1), w) of
                   (a', w') \<Rightarrow> (None, (g\<lparr>anthropic_ptr := Some a'\<rparr>, w'))))))"

text \<open>The result is the pair the source returns: the pointer (\<open>None\<close>: nil) and the
  error (\<open>None\<close>: nil).\<close>

definition GetAnthropicTranslator ::
  "env \<Rightarrow> Config option \<Rightarrow> globals \<times> world
    \<Rightarrow> (Anthropic option \<times> go_error option) \<times> (globals \<times> world)" where
  "GetAnthropicTranslator e cfg s =
     (case s of (g, w) \<Rightarrow>
        (case (if anthropicOnce g then (None, (g, w))
               else (case anthropicOnce_body e cfg (g, w) of
                       (err, (g1, w1)) \<Rightarrow> (err, (g1\<lparr>anthropicOnce := True\<rparr>, w1)))) of
           (Some err, s1) \<Rightarrow> ((None, Some err), s1)
         | (None, (g1, w1)) \<Rightarrow> ((anthropic_ptr g1, None), (g1, w1))))"

section \<open>Translate\<close>

definition promptLib :: "env \<Rightarrow> string \<Rightarrow> string" where
  "promptLib e k =
     (if k = ''psychology'' then psychologyPrompt e
      else if k = ''technical'' then technicalPrompt e
      else [])"

definition createTranslationSystem ::
  "env \<Rightarrow> string \<Rightarrow> string \<Rightarrow> string \<Rightarrow> string \<Rightarrow> string" where
  "createTranslationSystem e source target guidelines bookName =
     Sprintf3 e (if guidelines = [] then promptLib e ''technical'' else guidelines)
       source target bookName"

definition hextable :: string where
  "hextable = ''0123456789abcdef''"

fun hex_EncodeToString :: "string \<Rightarrow> string" where
  "hex_EncodeToString [] = []"
| "hex_EncodeToString (c # cs) =
     hextable ! ((of_char c :: nat) div 16) # hextable ! ((of_char c :: nat) mod 16)
       # hex_EncodeToString cs"

definition generateCacheKey :: "env \<Rightarrow> string \<Rightarrow> string \<Rightarrow> string \<Rightarrow> string" where
  "generateCacheKey e content source target =
     hex_EncodeToString (sha256_Sum256 e (content @ '':'' @ source @ '':'' @ target))"

text \<open>The request \<open>Translate\<close> sends.\<close>

definition Translate_request ::
  "env \<Rightarrow> Anthropic \<Rightarrow> string \<Rightarrow> string \<Rightarrow> string \<Rightarrow> string \<Rightarrow> string \<Rightarrow> MessagesRequest" where
  "Translate_request e a prompt content source target bookName =
     (let systemMessages =
            [\<lparr>Type = ''text'',
              Text = createTranslationSystem e source target
                       (TranslationGuidelines (config a)) bookName,
              CacheControl = Some ''ephemeral''\<rparr>]
            @ (if prompt \<noteq> [] then [\<lparr>Type = ''text'', Text = prompt, CacheControl = None\<rparr>]
               else [])
      in \<lparr>req_Model = Model (config a), MultiSystem = systemMessages,
          Messages = [''Translate this and not say anything otherwise the translation: ''
                       @ content],
          req_Temperature = Temperature (config a), req_MaxTokens = MaxTokens (config a)\<rparr>)"

text \<open>
  The statements of \<open>Translate\<close> under \<open>// Update metadata\<close> and
  \<open>// Update token usage\<close>, at the time \<open>now\<close>. The increment of
  \<open>ModelUsage[a.config.Model]\<close> panics on a nil map, after the two assignments before
  it.
\<close>

definition update_metadata ::
  "string \<Rightarrow> string \<Rightarrow> MessagesResponse \<Rightarrow> int \<Rightarrow> UsageMetadata
    \<Rightarrow> unit outcome \<times> UsageMetadata" where
  "update_metadata model content resp now m =
     (let m1 = m\<lparr>TotalCalls := TotalCalls m + 1, LastUsed := now\<rparr> in
      case ModelUsage m1 of
        None \<Rightarrow> (Panic ''assignment to entry in nil map'', m1)
      | Some mu \<Rightarrow>
          (let m2 = m1\<lparr>ModelUsage :=
                        Some (mu(model \<mapsto> (case mu model of None \<Rightarrow> 0 | Some n \<Rightarrow> n) + 1))\<rparr>;
               m3 = (if length (PromptExamples m2) < 5
                     then m2\<lparr>PromptExamples :=
                            PromptExamples m2 @ [take (min 100 (length content)) content]\<rparr>
                     else m2);
               totalTokens = InputTokens (Usage resp) + OutputTokens (Usage resp)
           in (Return (),
               m3\<lparr>TokenUsage := TokenUsage m3 + totalTokens,
                  TokenUsageList := TokenUsageList m3 @ [Usage resp]\<rparr>)))"

definition Translate ::
  "env \<Rightarrow> go_context \<Rightarrow> string \<Rightarrow> string \<Rightarrow> string \<Rightarrow> string \<Rightarrow> string
    \<Rightarrow> Anthropic \<times> world \<Rightarrow> (go_error + string) outcome \<times> (Anthropic \<times> world)" where
  "Translate e ctx prompt content source target bookName s =
     (case s of (a, w) \<Rightarrow>
        (let cacheKey = generateCacheKey e (prompt @ content) source target in
         case (if prompt \<noteq> [] then cache_Get (cache a) cacheKey (clock w) else None) of
           Some cachedTranslation \<Rightarrow> (Return (Inr cachedTranslation), (a, w))
         | None \<Rightarrow>
             (case createMessageWithRetry e ctx
                     (Translate_request e a prompt content source target bookName) w of
                (Inl err, w1) \<Rightarrow>
                  (Return (Inl (Errorf ''createMessageWithRetry: %w'' (Some err))), (a, w1))
              | (Inr resp, w1) \<Rightarrow>
                  if length (Content resp) = 0
                  then (Return (Inl (ErrorString ''no translation received'')), (a, w1))
                  else
                    (let translation = GetFirstContentText resp;
                         a1 = a\<lparr>cache := cache_SetWithTTL (cache a) cacheKey translation
                                            (CacheTTL (config a)) (clock w1)\<rparr>
                     in case update_metadata (Model (config a1)) content resp (clock w1)
                               (metadata a1) of
                          (Panic p, m) \<Rightarrow> (Panic p, (a1\<lparr>metadata := m\<rparr>, w1))
                        | (Return u, m) \<Rightarrow>
                            (let a2 = a1\<lparr>metadata := m\<rparr>
                             in (Return (Inr translation), (a2, saveMetadata e a2 w1)))))))"

section \<open>The server's AI translation\<close>

text \<open>\<open>0x3F333333\<close> is the \<open>float32\<close> 0.7. A nil translator returned with a nil error
  makes the call of its method \<open>Translate\<close> panic.\<close>

definition translateWithAI ::
  "env \<Rightarrow> string \<Rightarrow> string \<Rightarrow> string \<Rightarrow> globals \<times> world
    \<Rightarrow> (go_error + string) outcome \<times> (globals \<times> world)" where
  "translateWithAI e content instructions bookTitle s =
     (case GetAnthropicTranslator e
             (Some \<lparr>APIKey = Getenv e ''ANTHROPIC_KEY'', Model = ModelClaude3Dot5SonnetLatest,
                    Temperature = 0x3F333333, MaxTokens = 8192, CacheTTL = 0,
                    CacheMaxCost = 0, TranslationGuidelines = [], SystemPrompt = []\<rparr>) s of
        ((p, Some err), s1) \<Rightarrow> (Return (Inl (Errorf_v ''error getting translator: %v'' err)), s1)
      | ((None, None), s1) \<Rightarrow>
          (Panic ''invalid memory address or nil pointer dereference'', s1)
      | ((Some a, None), (g1, w1)) \<Rightarrow>
          (case Translate e context_Background instructions content ''english'' ''vietnamese''
                  bookTitle (a, w1) of
             (Return (Inl err), (a2, w2)) \<Rightarrow>
               (Return (Inl (Errorf_v ''translation error: %v'' err)),
                (g1\<lparr>anthropic_ptr := Some a2\<rparr>, w2))
           | (Return (Inr translatedContent), (a2, w2)) \<Rightarrow>
               (Return (Inr translatedContent), (g1\<lparr>anthropic_ptr := Some a2\<rparr>, w2))
           | (Panic p, (a2, w2)) \<Rightarrow> (Panic p, (g1\<lparr>anthropic_ptr := Some a2\<rparr>, w2))))"

record TranslateAIRequest =
  FilePath :: string
  TranslationID :: string
  ContentID :: string
  Instructions :: string

text \<open>A response \<open>c.Status(code).JSON(fiber.Map{key: value})\<close>.\<close>

datatype http_response = JSON nat string string

text \<open>\<open>doc.Find("[name]")\<close>: the elements that have the attribute, in document order;
  \<open>s.Attr(name)\<close>: the value of the first attribute of that name.\<close>

definition Find_attr :: "string \<Rightarrow> html_element list \<Rightarrow> html_element list" where
  "Find_attr name doc = filter (\<lambda>s. map_of (attrs s) name \<noteq> None) doc"

definition Attr :: "html_element \<Rightarrow> string \<Rightarrow> string option" where
  "Attr s name = map_of (attrs s) name"

text \<open>The two loops \<open>doc.Find("[name]").Each(...)\<close> of the handler: the variable starts
  empty and takes the inner HTML of each element whose attribute equals \<open>id\<close>.\<close>

definition Each_html :: "string \<Rightarrow> string \<Rightarrow> html_element list \<Rightarrow> string" where
  "Each_html name ident doc =
     fold (\<lambda>s acc. if Attr s name = Some ident then inner_html s else acc)
       (Find_attr name doc) []"

text \<open>
  The handler of \<open>POST /api/ai-translate\<close>, with the function it calls for the
  translation as a parameter (the source calls \<open>translateWithAI\<close>). \<open>body\<close> is the result
  of \<open>c.BodyParser(&req)\<close>.
\<close>

definition ai_translate_with ::
  "(string \<Rightarrow> string \<Rightarrow> string \<Rightarrow> 's \<times> world \<Rightarrow> (go_error + string) outcome \<times> ('s \<times> world))
    \<Rightarrow> env \<Rightarrow> string \<Rightarrow> string \<Rightarrow> go_error + TranslateAIRequest \<Rightarrow> 's \<times> world
    \<Rightarrow> http_response outcome \<times> ('s \<times> world)" where
  "ai_translate_with translate e contentDirPath bookTitle body s =
     (case body of
        Inl err \<Rightarrow> (Return (JSON 400 ''error'' ''Invalid request''), s)
      | Inr req \<Rightarrow>
          (case os_ReadFile e (path_Join e contentDirPath (FilePath req)) (snd s) of
             Inl err \<Rightarrow> (Return (JSON 500 ''error'' ''Failed to read file''), s)
           | Inr content \<Rightarrow>
               (case NewDocumentFromReader e content of
                  Inl err \<Rightarrow> (Return (JSON 500 ''error'' ''Failed to parse HTML''), s)
                | Inr doc \<Rightarrow>
                    (let originalContent = Each_html ''data-content-id'' (ContentID req) doc in
                     if originalContent = []
                     then (Return (JSON 404 ''error'' ''Translation ID not found''), s)
                     else
                       (let currentTranslatedContent =
                              Each_html ''data-translation-id'' (TranslationID req) doc;
                            instructment =
                              (if length currentTranslatedContent > 0
                               then ''Previous translation:'' @ [CHR 0x0A, CHR 0x0A]
                                      @ currentTranslatedContent @ [CHR 0x0A, CHR 0x0A]
                                      @ Instructions req
                               else Instructions req)
                        in case translate originalContent instructment bookTitle s of
                             (Return (Inl err), s1) \<Rightarrow>
                               (Return (JSON 500 ''error'' ''Translation failed''), s1)
                           | (Return (Inr translatedContent), s1) \<Rightarrow>
                               (Return (JSON 200 ''translated_content'' translatedContent), s1)
                           | (Panic p, s1) \<Rightarrow> (Panic p, s1))))))"

definition ai_translate ::
  "env \<Rightarrow> string \<Rightarrow> string \<Rightarrow> go_error + TranslateAIRequest \<Rightarrow> globals \<times> world
    \<Rightarrow> http_response outcome \<times> (globals \<times> world)" where
  "ai_translate e = ai_translate_with (translateWithAI e) e"

section \<open>Properties of runs\<close>

text \<open>The backend answers every request \<open>req\<close> with a rate-limit error.\<close>

definition always_rate_limited :: "env \<Rightarrow> MessagesRequest \<Rightarrow> bool" where
  "always_rate_limited e req =
     (\<forall>n. \<exists>err. CreateMessages e n req = Inl err \<and> IsRateLimitErr err)"

text \<open>The context is not cancelled during any backoff.\<close>

definition never_Done :: "go_context \<Rightarrow> bool" where
  "never_Done ctx = (\<forall>k. \<not> Done ctx k)"

text \<open>Attempt \<open>i\<close> of a call that starts when the backend has received \<open>n\<close> requests
  is answered with a rate-limit error, and the backoff after it is not cancelled.\<close>

definition waited_out :: "env \<Rightarrow> go_context \<Rightarrow> MessagesRequest \<Rightarrow> nat \<Rightarrow> nat \<Rightarrow> bool" where
  "waited_out e ctx req n i =
     ((\<exists>err. CreateMessages e (n + i) req = Inl err \<and> IsRateLimitErr err) \<and> \<not> Done ctx i)"

text \<open>The world after \<open>j\<close> attempts that were each followed by a completed backoff:
  \<open>j\<close> requests sent, and the timers of 1 s, 2 s, ..., \<open>j\<close> s fired.\<close>

definition backed_off :: "MessagesRequest \<Rightarrow> nat \<Rightarrow> world \<Rightarrow> world" where
  "backed_off req j w =
     w\<lparr>clock := clock w + (\<Sum>i<j. int (Suc i) * Second),
       stdout := stdout w @ replicate j
         (Println ([CHR 0x09, CHR 0x09, CHR 0x09] @ ''retrying after rate limit error'')),
       api_requests := api_requests w @ replicate j req,
       timers := timers w @ map (\<lambda>i. int (Suc i) * Second) [0..<j]\<rparr>"

text \<open>The translator after a call of \<open>Translate\<close> that stored \<open>translation\<close> at the
  time \<open>now\<close> and left the metadata \<open>m\<close>.\<close>

definition after_Translate ::
  "env \<Rightarrow> string \<Rightarrow> string \<Rightarrow> string \<Rightarrow> string \<Rightarrow> string \<Rightarrow> int \<Rightarrow> UsageMetadata
    \<Rightarrow> Anthropic \<Rightarrow> Anthropic" where
  "after_Translate e prompt content source target translation now m a =
     a\<lparr>cache := cache_SetWithTTL (cache a) (generateCacheKey e (prompt @ content) source target)
                  translation (CacheTTL (config a)) now,
       metadata := m\<rparr>"

text \<open>A sequence of calls of \<open>Translate\<close> on one translator, each with its own
  environment, context and arguments.\<close>

record translate_call =
  call_env :: env
  call_ctx :: go_context
  call_prompt :: string
  call_content :: string
  call_source :: string
  call_target :: string
  call_bookName :: string

fun Translate_calls :: "translate_call list \<Rightarrow> Anthropic \<times> world \<Rightarrow> Anthropic \<times> world" where
  "Translate_calls [] s = s"
| "Translate_calls (c # cs) s =
     Translate_calls cs
       (snd (Translate (call_env c) (call_ctx c) (call_prompt c) (call_content c)
               (call_source c) (call_target c) (call_bookName c) s))"

text \<open>The environment \<open>e\<close> with other answers of the JSON encoder and of the file
  system operations of \<open>saveMetadata\<close>.\<close>

definition with_persistence ::
  "env \<Rightarrow> (UsageMetadata \<Rightarrow> go_error + string) \<Rightarrow> (string \<Rightarrow> go_error option)
    \<Rightarrow> (string \<Rightarrow> go_error option) \<Rightarrow> env" where
  "with_persistence e enc mk wr =
     e\<lparr>json_MarshalIndent := enc, MkdirAll_err := mk, WriteFile_err := wr\<rparr>"

section \<open>Example inputs\<close>

definition ex_response :: MessagesResponse where
  "ex_response = \<lparr>Content = [''xin chao''], Usage = \<lparr>InputTokens = 12, OutputTokens = 5\<rparr>\<rparr>"

definition backend_ok :: "nat \<Rightarrow> MessagesRequest \<Rightarrow> go_error + MessagesResponse" where
  "backend_ok n req = Inr ex_response"

definition backend_rate_limited :: "nat \<Rightarrow> MessagesRequest \<Rightarrow> go_error + MessagesResponse" where
  "backend_rate_limited n req = Inl (APIError ''rate_limit_error'' ''slow down'')"

definition backend_limited_then_denied ::
  "nat \<Rightarrow> MessagesRequest \<Rightarrow> go_error + MessagesResponse" where
  "backend_limited_then_denied n req =
     (if n = 0 then Inl (APIError ''rate_limit_error'' ''slow down'')
      else Inl (APIError ''authentication_error'' ''invalid x-api-key''))"

text \<open>An environment around a backend: no environment variable is set, no operation of
  the file system fails, and the hash function is a stand-in.\<close>

definition ex_env :: "(nat \<Rightarrow> MessagesRequest \<Rightarrow> go_error + MessagesResponse) \<Rightarrow> env" where
  "ex_env backend =
     \<lparr>CreateMessages = backend, sha256_Sum256 = (\<lambda>s. s), Sprintf3 = (\<lambda>f x y z. f),
      technicalPrompt = ''Translate the book.'', psychologyPrompt = ''Translate it simply.'',
      Getenv = (\<lambda>k. []), NewCache_err = None, ReadFile_err = (\<lambda>p. None),
      MkdirAll_err = (\<lambda>p. None), WriteFile_err = (\<lambda>p. None),
      json_MarshalIndent = (\<lambda>m. Inr ''{}''), json_Unmarshal = (\<lambda>d m. (None, m)),
      path_Join = (\<lambda>x y. x @ ''/'' @ y), NewDocumentFromReader = (\<lambda>c. Inr [])\<rparr>"

definition cancelled_context :: go_context where
  "cancelled_context = \<lparr>Done = (\<lambda>k. True), Err = ContextError ''context canceled''\<rparr>"

definition ex_request :: MessagesRequest where
  "ex_request =
     \<lparr>req_Model = ''claude-3-5-sonnet-latest'', MultiSystem = [],
      Messages = [''Translate this and not say anything otherwise the translation: hello''],
      req_Temperature = 0x3E99999A, req_MaxTokens = 8192\<rparr>"

definition world0 :: world where
  "world0 = \<lparr>clock = 0, stdout = [], files = Map.empty, api_requests = [], timers = []\<rparr>"

definition ex_config :: Config where
  "ex_config =
     \<lparr>APIKey = ''sk-test'', Model = ModelClaude3Dot5SonnetLatest, Temperature = 0x3F333333,
      MaxTokens = 8192, CacheTTL = 15 * Minute, CacheMaxCost = 10000000,
      TranslationGuidelines = [], SystemPrompt = []\<rparr>"

definition ex_translator :: Anthropic where
  "ex_translator =
     \<lparr>client = (''sk-test'', ''prompt-caching-2024-07-31''),
      cache = \<lparr>store = Map.empty, setBuf = []\<rparr>,
      config = ex_config,
      metadata = \<lparr>TotalCalls = 0, LastUsed = 0, ModelUsage = Some Map.empty,
        PromptExamples = [], TokenUsage = 0, TokenUsageList = []\<rparr>\<rparr>"

text \<open>The state after a first call on the example translator, with instructions and
  without.\<close>

definition ex_state1 :: "Anthropic \<times> world" where
  "ex_state1 =
     snd (Translate (ex_env backend_ok) context_Background ''formal'' ''hello'' ''english''
            ''vietnamese'' ''Book'' (ex_translator, world0))"

definition ex_state1_no_instructions :: "Anthropic \<times> world" where
  "ex_state1_no_instructions =
     snd (Translate (ex_env backend_ok) context_Background [] ''hello'' ''english''
            ''vietnamese'' ''Book'' (ex_translator, world0))"

text \<open>The same states after the cache's goroutine has taken the queued items and
  admitted them all.\<close>

definition admit_all :: "string \<Rightarrow> bool" where
  "admit_all key = True"

definition ex_state1_admitted :: "Anthropic \<times> world" where
  "ex_state1_admitted =
     ((fst ex_state1)\<lparr>cache := processItems admit_all (cache (fst ex_state1))\<rparr>, snd ex_state1)"

definition ex_state1_no_instructions_admitted :: "Anthropic \<times> world" where
  "ex_state1_no_instructions_admitted =
     ((fst ex_state1_no_instructions)
        \<lparr>cache := processItems admit_all (cache (fst ex_state1_no_instructions))\<rparr>,
      snd ex_state1_no_instructions)"




text \<open>A call whose content has 150 bytes.\<close>

definition ex_long_call :: translate_call where
  "ex_long_call =
     \<lparr>call_env = ex_env backend_ok, call_ctx = context_Background, call_prompt = ''formal'',
      call_content = replicate 150 CHR ''a'', call_source = ''english'',
      call_target = ''vietnamese'', call_bookName = ''Book''\<rparr>"










section \<open>The retry loop\<close>

lemma loop_exhausted:
  "createMessageWithRetry_loop e ctx req 3 err w =
     (Inl (Errorf ''max retries reached: %w'' err), w)"
  by (simp add: createMessageWithRetry_loop.simps[of _ _ _ 3] maxRetries_def)

lemma loop_step_backoff:
  assumes "retries < maxRetries" "CreateMessages e (length (api_requests w)) req = Inl err"
    "IsRateLimitErr err" "\<not> Done ctx retries"
  shows "createMessageWithRetry_loop e ctx req retries prev w =
     createMessageWithRetry_loop e ctx req (Suc retries) (Some err)
       (time_After (int (Suc retries) * Second) (w\<lparr>api_requests := api_requests w @ [req]\<rparr>))"
  using assms
  by (subst createMessageWithRetry_loop.simps) (simp add: client_CreateMessages_def)

lemma loop_step_error:
  assumes "retries < maxRetries" "CreateMessages e (length (api_requests w)) req = Inl err"
    "\<not> IsRateLimitErr err"
  shows "createMessageWithRetry_loop e ctx req retries prev w =
     (Inl err, w\<lparr>api_requests := api_requests w @ [req]\<rparr>)"
  using assms
  by (subst createMessageWithRetry_loop.simps) (simp add: client_CreateMessages_def)

lemma loop_step_cancel:
  assumes "retries < maxRetries" "CreateMessages e (length (api_requests w)) req = Inl err"
    "IsRateLimitErr err" "Done ctx retries"
  shows "createMessageWithRetry_loop e ctx req retries prev w =
     (Inl (Err ctx), w\<lparr>api_requests := api_requests w @ [req]\<rparr>)"
  using assms
  by (subst createMessageWithRetry_loop.simps) (simp add: client_CreateMessages_def)

lemma loop_step_ok:
  assumes "retries < maxRetries" "CreateMessages e (length (api_requests w)) req = Inr resp"
  shows "createMessageWithRetry_loop e ctx req retries prev w =
     (Inr resp, w\<lparr>api_requests := api_requests w @ [req]\<rparr>)"
  using assms
  by (subst createMessageWithRetry_loop.simps) (simp add: client_CreateMessages_def)

lemma backed_off_0: "backed_off req 0 w = w"
  by (simp add: backed_off_def)

lemma backed_off_Suc:
  "time_After (int (Suc j) * Second)
     ((backed_off req j w)\<lparr>api_requests := api_requests (backed_off req j w) @ [req]\<rparr>)
   = backed_off req (Suc j) w"
  by (simp add: backed_off_def time_After_def replicate_append_same)

lemma length_requests_backed_off:
  "length (api_requests (backed_off req j w)) = length (api_requests w) + j"
  by (simp add: backed_off_def)

text \<open>After \<open>j\<close> attempts that were waited out, the loop is at its iteration \<open>j\<close>, and
  its variable \<open>err\<close> holds the error of the last attempt.\<close>

lemma loop_prefix:
  assumes "j \<le> maxRetries"
    and "\<forall>i<j. waited_out e ctx req (length (api_requests w)) i"
  shows "\<exists>prev. createMessageWithRetry e ctx req w =
            createMessageWithRetry_loop e ctx req j prev (backed_off req j w)
      \<and> (\<forall>err. 0 < j \<longrightarrow> CreateMessages e (length (api_requests w) + (j - 1)) req = Inl err
            \<longrightarrow> prev = Some err)"
  using assms
proof (induction j)
  case 0
  then show ?case by (auto simp: createMessageWithRetry_def backed_off_0)
next
  case (Suc j)
  then obtain prev where p: "createMessageWithRetry e ctx req w =
      createMessageWithRetry_loop e ctx req j prev (backed_off req j w)"
    by auto
  from Suc.prems obtain err where
    e: "CreateMessages e (length (api_requests w) + j) req = Inl err"
       "IsRateLimitErr err" "\<not> Done ctx j"
    by (auto simp: waited_out_def)
  have "j < maxRetries" using Suc.prems(1) by simp
  then have "createMessageWithRetry_loop e ctx req j prev (backed_off req j w) =
     createMessageWithRetry_loop e ctx req (Suc j) (Some err) (backed_off req (Suc j) w)"
    using loop_step_backoff[of j e "backed_off req j w" req err ctx prev] e
      length_requests_backed_off[of req j w]
    unfolding backed_off_Suc by simp
  with p e show ?case by auto
qed

section \<open>Calls of Translate\<close>


lemma loop_requests:
  "\<exists>k. (retries < maxRetries \<longrightarrow> 0 < k) \<and>
     api_requests (snd (createMessageWithRetry_loop e ctx req retries prev w)) =
       api_requests w @ replicate k req"
proof (induction e ctx req retries prev w rule: createMessageWithRetry_loop.induct)
  case (1 e ctx req retries err w)
  show ?case
  proof (cases "retries < maxRetries")
    case False
    then show ?thesis
      by (subst createMessageWithRetry_loop.simps) (auto intro: exI[of _ 0])
  next
    case True
    show ?thesis
    proof (cases "CreateMessages e (length (api_requests w)) req")
      case (Inr resp)
      show ?thesis
        unfolding loop_step_ok[OF True Inr] by (auto intro: exI[of _ 1])
    next
      case (Inl err1)
      show ?thesis
      proof (cases "IsRateLimitErr err1")
        case False
        show ?thesis
          unfolding loop_step_error[OF True Inl False] by (auto intro: exI[of _ 1])
      next
        case rl: True
        show ?thesis
        proof (cases "Done ctx retries")
          case True
          show ?thesis
            unfolding loop_step_cancel[OF \<open>retries < maxRetries\<close> Inl rl True]
            by (auto intro: exI[of _ 1])
        next
          case False
          from "1.IH"[of "Inl err1" "w\<lparr>api_requests := api_requests w @ [req]\<rparr>" err1]
            \<open>retries < maxRetries\<close> Inl rl False
          obtain k where
            "api_requests (snd (createMessageWithRetry_loop e ctx req (retries + 1) (Some err1)
               (time_After (int (retries + 1) * Second)
                  (w\<lparr>api_requests := api_requests w @ [req]\<rparr>)))) =
             api_requests (time_After (int (retries + 1) * Second)
                  (w\<lparr>api_requests := api_requests w @ [req]\<rparr>)) @ replicate k req"
            by (auto simp: client_CreateMessages_def)
          then show ?thesis
            unfolding loop_step_backoff[OF \<open>retries < maxRetries\<close> Inl rl False]
            by (auto simp: time_After_def intro!: exI[of _ "Suc k"])
        qed
      qed
    qed
  qed
qed

text \<open>Every call makes at least one attempt, and all its attempts send \<open>req\<close>.\<close>

lemma createMessageWithRetry_requests:
  "\<exists>k. api_requests (snd (createMessageWithRetry e ctx req w)) =
       api_requests w @ req # replicate k req"
proof -
  from loop_requests[of 0 e ctx req None w] obtain k where
    "0 < k" "api_requests (snd (createMessageWithRetry e ctx req w)) = api_requests w @ replicate k req"
    by (auto simp: createMessageWithRetry_def maxRetries_def)
  then show ?thesis by (cases k) auto
qed

lemma saveMetadata_keeps [simp]:
  "api_requests (saveMetadata e a w) = api_requests w"
  "clock (saveMetadata e a w) = clock w"
  "timers (saveMetadata e a w) = timers w"
  by (simp_all add: saveMetadata_def write_stdout_def split: sum.splits option.splits)

lemma Translate_hit:
  assumes "prompt \<noteq> []"
    and "cache_Get (cache a) (generateCacheKey e (prompt @ content) source target) (clock w) = Some v"
  shows "Translate e ctx prompt content source target bookName (a, w) = (Return (Inr v), (a, w))"
  using assms by (simp add: Translate_def)

lemma Translate_backend:
  assumes "Translate e ctx prompt content source target bookName (a, w) = (Return (Inr t), (a', w'))"
    and "api_requests w' \<noteq> api_requests w"
  shows "\<exists>resp w1 m.
      (prompt = [] \<or> cache_Get (cache a) (generateCacheKey e (prompt @ content) source target) (clock w) = None)
    \<and> createMessageWithRetry e ctx (Translate_request e a prompt content source target bookName) w = (Inr resp, w1)
    \<and> Content resp \<noteq> [] \<and> t = GetFirstContentText resp
    \<and> update_metadata (Model (config a)) content resp (clock w1) (metadata a) = (Return (), m)
    \<and> a' = after_Translate e prompt content source target t (clock w1) m a
    \<and> w' = saveMetadata e a' w1"
  using assms
  by (auto simp: Translate_def Let_def after_Translate_def
      split: option.splits prod.splits sum.splits if_splits outcome.splits)

lemma Translate_success:
  assumes "prompt = [] \<or> cache_Get (cache a) (generateCacheKey e (prompt @ content) source target) (clock w) = None"
    and "createMessageWithRetry e ctx (Translate_request e a prompt content source target bookName) w = (Inr resp, w1)"
    and "Content resp \<noteq> []"
    and "update_metadata (Model (config a)) content resp (clock w1) (metadata a) = (Return (), m)"
  shows "Translate e ctx prompt content source target bookName (a, w) =
     (Return (Inr (GetFirstContentText resp)),
      (after_Translate e prompt content source target (GetFirstContentText resp) (clock w1) m a,
       saveMetadata e (after_Translate e prompt content source target (GetFirstContentText resp) (clock w1) m a) w1))"
  using assms
  by (auto simp: Translate_def Let_def after_Translate_def)

lemma Translate_miss_requests:
  assumes "prompt = [] \<or> cache_Get (cache a) (generateCacheKey e (prompt @ content) source target) (clock w) = None"
  shows "\<exists>k. api_requests (snd (snd (Translate e ctx prompt content source target bookName (a, w)))) =
     api_requests w @ Translate_request e a prompt content source target bookName
       # replicate k (Translate_request e a prompt content source target bookName)"
proof -
  obtain r w1 where c: "createMessageWithRetry e ctx (Translate_request e a prompt content source target bookName) w = (r, w1)"
    by (cases "createMessageWithRetry e ctx (Translate_request e a prompt content source target bookName) w")
  from createMessageWithRetry_requests[of e ctx "Translate_request e a prompt content source target bookName" w] c
  obtain k where "api_requests w1 = api_requests w @ Translate_request e a prompt content source target bookName
       # replicate k (Translate_request e a prompt content source target bookName)" by auto
  then show ?thesis using assms c
    by (auto simp: Translate_def Let_def split: sum.splits prod.splits outcome.splits)
qed

lemma update_metadata_Return:
  "ModelUsage m = Some mu \<Longrightarrow> fst (update_metadata model content resp now m) = Return ()"
  by (simp add: update_metadata_def Let_def)

lemma update_metadata_ModelUsage:
  "ModelUsage m = Some mu \<Longrightarrow>
     ModelUsage (snd (update_metadata model content resp now m)) =
       Some (mu(model \<mapsto> (case mu model of None \<Rightarrow> 0 | Some n \<Rightarrow> n) + 1))"
  by (simp add: update_metadata_def Let_def)

lemma update_metadata_Some:
  assumes "ModelUsage m = Some mu"
  shows "update_metadata model content resp now m =
    (Return (),
     m\<lparr>TotalCalls := TotalCalls m + 1, LastUsed := now,
       ModelUsage := Some (mu(model \<mapsto> (case mu model of None \<Rightarrow> 0 | Some n \<Rightarrow> n) + 1)),
       PromptExamples := (if length (PromptExamples m) < 5
                          then PromptExamples m @ [take 100 content] else PromptExamples m),
       TokenUsage := TokenUsage m + (InputTokens (Usage resp) + OutputTokens (Usage resp)),
       TokenUsageList := TokenUsageList m @ [Usage resp]\<rparr>)"
  using assms by (simp add: update_metadata_def Let_def min_def)

lemma update_metadata_None:
  assumes "ModelUsage m = None"
  shows "fst (update_metadata model content resp now m) = Panic ''assignment to entry in nil map''"
  using assms by (simp add: update_metadata_def Let_def)

lemma update_metadata_inv:
  assumes "update_metadata model content resp now m = (Return u, m')"
  shows "\<exists>mu. ModelUsage m = Some mu
     \<and> ModelUsage m' = Some (mu(model \<mapsto> (case mu model of None \<Rightarrow> 0 | Some n \<Rightarrow> n) + 1))"
    and "TotalCalls m' = TotalCalls m + 1"
    and "LastUsed m' = now"
    and "TokenUsage m' = TokenUsage m + (InputTokens (Usage resp) + OutputTokens (Usage resp))"
    and "TokenUsageList m' = TokenUsageList m @ [Usage resp]"
    and "PromptExamples m' =
          (if length (PromptExamples m) < 5 then PromptExamples m @ [take 100 content]
           else PromptExamples m)"
proof -
  obtain mu where mu: "ModelUsage m = Some mu"
    using assms update_metadata_None[of m model content resp now]
    by (cases "ModelUsage m") auto
  note eq = update_metadata_Some[OF mu, of model content resp now]
  have m': "m' = snd (update_metadata model content resp now m)" using assms by simp
  show "\<exists>mu. ModelUsage m = Some mu
     \<and> ModelUsage m' = Some (mu(model \<mapsto> (case mu model of None \<Rightarrow> 0 | Some n \<Rightarrow> n) + 1))"
    unfolding m' eq using mu by simp
  show "TotalCalls m' = TotalCalls m + 1" unfolding m' eq by simp
  show "LastUsed m' = now" unfolding m' eq by simp
  show "TokenUsage m' = TokenUsage m + (InputTokens (Usage resp) + OutputTokens (Usage resp))"
    unfolding m' eq by simp
  show "TokenUsageList m' = TokenUsageList m @ [Usage resp]" unfolding m' eq by simp
  show "PromptExamples m' =
          (if length (PromptExamples m) < 5 then PromptExamples m @ [take 100 content]
           else PromptExamples m)"
    unfolding m' eq by simp
qed

text \<open>A call that misses the cache and whose first attempt succeeds.\<close>

lemma Translate_first_attempt:
  assumes "prompt = [] \<or> cache_Get (cache a) (generateCacheKey e (prompt @ content) source target) (clock w) = None"
    and "CreateMessages e (length (api_requests w)) (Translate_request e a prompt content source target bookName) = Inr resp"
    and "Content resp \<noteq> []"
    and "ModelUsage (metadata a) = Some mu"
  shows "Translate e ctx prompt content source target bookName (a, w) =
     (Return (Inr (GetFirstContentText resp)),
      (after_Translate e prompt content source target (GetFirstContentText resp) (clock w)
         (snd (update_metadata (Model (config a)) content resp (clock w) (metadata a))) a,
       saveMetadata e (after_Translate e prompt content source target (GetFirstContentText resp) (clock w)
         (snd (update_metadata (Model (config a)) content resp (clock w) (metadata a))) a)
         (w\<lparr>api_requests := api_requests w @ [Translate_request e a prompt content source target bookName]\<rparr>)))"
proof -
  have c: "createMessageWithRetry e ctx (Translate_request e a prompt content source target bookName) w =
      (Inr resp, w\<lparr>api_requests := api_requests w @ [Translate_request e a prompt content source target bookName]\<rparr>)"
    unfolding createMessageWithRetry_def
    using loop_step_ok[OF _ assms(2), of 0 ctx None] by (simp add: maxRetries_def)
  have u: "update_metadata (Model (config a)) content resp
      (clock (w\<lparr>api_requests := api_requests w @ [Translate_request e a prompt content source target bookName]\<rparr>)) (metadata a) =
      (Return (), snd (update_metadata (Model (config a)) content resp (clock w) (metadata a)))"
    using update_metadata_Return[OF assms(4), of "Model (config a)" content resp "clock w"]
    by (simp add: prod_eq_iff)
  show ?thesis
    using Translate_success[OF assms(1) c assms(3) u] by simp
qed

lemma ex_Translate_miss:
  assumes "prompt = [] \<or> cache_Get (cache a) (generateCacheKey (ex_env backend_ok) (prompt @ content) source target) (clock w) = None"
    and "ModelUsage (metadata a) = Some mu"
  shows "Translate (ex_env backend_ok) ctx prompt content source target bookName (a, w) =
     (Return (Inr ''xin chao''),
      (after_Translate (ex_env backend_ok) prompt content source target ''xin chao'' (clock w)
         (snd (update_metadata (Model (config a)) content ex_response (clock w) (metadata a))) a,
       saveMetadata (ex_env backend_ok)
         (after_Translate (ex_env backend_ok) prompt content source target ''xin chao'' (clock w)
            (snd (update_metadata (Model (config a)) content ex_response (clock w) (metadata a))) a)
         (w\<lparr>api_requests := api_requests w @
            [Translate_request (ex_env backend_ok) a prompt content source target bookName]\<rparr>)))"
proof -
  have c: "CreateMessages (ex_env backend_ok) (length (api_requests w))
      (Translate_request (ex_env backend_ok) a prompt content source target bookName) = Inr ex_response"
    by (simp add: ex_env_def backend_ok_def)
  have n: "Content ex_response \<noteq> []" by (simp add: ex_response_def)
  have g: "GetFirstContentText ex_response = ''xin chao''"
    by (simp add: GetFirstContentText_def ex_response_def)
  show ?thesis
    using Translate_first_attempt[OF assms(1) c n assms(2), of ctx] unfolding g .
qed

lemma ex_state1_eq:
  "Translate (ex_env backend_ok) context_Background ''formal'' ''hello'' ''english''
       ''vietnamese'' ''Book'' (ex_translator, world0) = (Return (Inr ''xin chao''), ex_state1)"
proof -
  have m: "ModelUsage (metadata ex_translator) = Some Map.empty"
    by (simp add: ex_translator_def)
  have c: "cache_Get (cache ex_translator)
     (generateCacheKey (ex_env backend_ok) (''formal'' @ ''hello'') ''english'' ''vietnamese'')
     (clock world0) = None"
    by (simp add: cache_Get_def ex_translator_def)
  show ?thesis
    unfolding ex_state1_def
    by (subst (1 2) ex_Translate_miss[OF disjI2, OF c m]) simp
qed

lemma ex_state1_facts:
  "api_requests (snd ex_state1) \<noteq> api_requests world0"
  "clock (snd ex_state1) = 0"
  "length (api_requests (snd ex_state1)) = 1"
  "TotalCalls (metadata (fst ex_state1)) = 1"
proof -
  have m: "ModelUsage (metadata ex_translator) = Some Map.empty"
    by (simp add: ex_translator_def)
  have c: "cache_Get (cache ex_translator)
     (generateCacheKey (ex_env backend_ok) (''formal'' @ ''hello'') ''english'' ''vietnamese'')
     (clock world0) = None"
    by (simp add: cache_Get_def ex_translator_def)
  note e = ex_Translate_miss[where ctx = context_Background and bookName = "''Book''",
      OF disjI2, OF c m]
  show "api_requests (snd ex_state1) \<noteq> api_requests world0"
    unfolding ex_state1_def e by (simp add: world0_def)
  show "clock (snd ex_state1) = 0"
    unfolding ex_state1_def e by (simp add: world0_def)
  show "length (api_requests (snd ex_state1)) = 1"
    unfolding ex_state1_def e by (simp add: world0_def)
  show "TotalCalls (metadata (fst ex_state1)) = 1"
    unfolding ex_state1_def e
    by (simp add: after_Translate_def update_metadata_def ex_translator_def Let_def)
qed

lemma ex_state1_no_instructions_eq:
  "Translate (ex_env backend_ok) context_Background [] ''hello'' ''english''
       ''vietnamese'' ''Book'' (ex_translator, world0)
     = (Return (Inr ''xin chao''), ex_state1_no_instructions)"
proof -
  have m: "ModelUsage (metadata ex_translator) = Some Map.empty"
    by (simp add: ex_translator_def)
  show ?thesis
    unfolding ex_state1_no_instructions_def
    by (subst (1 2) ex_Translate_miss[OF disjI1, OF refl m]) simp
qed

text \<open>The retry loop, the cache key and the request depend on the environment only
  through the backend, the hash function and the prompt texts.\<close>

lemma loop_env_cong:
  assumes "CreateMessages e' = CreateMessages e"
  shows "createMessageWithRetry_loop e' ctx req retries prev w =
         createMessageWithRetry_loop e ctx req retries prev w"
  using assms
proof (induction e ctx req retries prev w rule: createMessageWithRetry_loop.induct)
  case (1 e ctx req retries err w)
  show ?case
    apply (subst createMessageWithRetry_loop.simps[of e'])
    apply (subst createMessageWithRetry_loop.simps[of e])
    using 1
    apply (auto simp: client_CreateMessages_def split: sum.splits)
    done
qed

lemma with_persistence_same [simp]:
  "createMessageWithRetry (with_persistence e enc mk wr) = createMessageWithRetry e"
  "generateCacheKey (with_persistence e enc mk wr) = generateCacheKey e"
  "Translate_request (with_persistence e enc mk wr) = Translate_request e"
  by (auto simp: fun_eq_iff createMessageWithRetry_def generateCacheKey_def
      Translate_request_def createTranslationSystem_def promptLib_def with_persistence_def
      intro!: loop_env_cong)

lemma after_Translate_with_persistence [simp]:
  "after_Translate (with_persistence e enc mk wr) = after_Translate e"
  by (simp add: fun_eq_iff after_Translate_def)

lemma saveMetadata_cases:
  "(\<exists>data. json_MarshalIndent e (metadata a) = Inr data
       \<and> saveMetadata e a w = w\<lparr>files := (files w)(getMetadataFilePath \<mapsto> data)\<rparr>)
   \<or> (\<exists>f err. saveMetadata e a w = write_stdout (Printf f err) w)"
  by (auto simp: saveMetadata_def split: sum.splits option.splits)

lemma cache_Get_item:
  "store c key = Some \<lparr>item_value = t, expiration = Some x\<rparr> \<Longrightarrow>
     cache_Get c key now = (if x < now then None else Some t)"
  by (simp add: cache_Get_def)

lemma cache_Get_absent: "store c key = None \<Longrightarrow> cache_Get c key now = None"
  by (simp add: cache_Get_def)

lemma cache_SetWithTTL_positive:
  assumes "0 < ttl"
  shows "cache_SetWithTTL c key v ttl now =
     (if store c key \<noteq> None
      then c\<lparr>store := (store c)(key \<mapsto> \<lparr>item_value = v, expiration = Some (now + ttl)\<rparr>)\<rparr>
      else c\<lparr>setBuf := setBuf c @ [(key, \<lparr>item_value = v, expiration = Some (now + ttl)\<rparr>)]\<rparr>)"
  using assms by (simp add: cache_SetWithTTL_def Let_def)

lemma processItems_last:
  "admit key \<Longrightarrow> setBuf c = b @ [(key, it)] \<Longrightarrow> store (processItems admit c) key = Some it"
  by (simp add: processItems_def)

lemma cache_after_Translate [simp]:
  "cache (after_Translate e prompt content source target t now m a) =
     cache_SetWithTTL (cache a) (generateCacheKey e (prompt @ content) source target) t
       (CacheTTL (config a)) now"
  "config (after_Translate e prompt content source target t now m a) = config a"
  "metadata (after_Translate e prompt content source target t now m a) = m"
  by (simp_all add: after_Translate_def)

lemma ex_translator_fresh:
  "ModelUsage (metadata ex_translator) = Some Map.empty"
  "store (cache ex_translator) key = None"
  "setBuf (cache ex_translator) = []"
  "0 < CacheTTL (config ex_translator)"
  "CacheTTL (config ex_translator) = 15 * Minute"
  "cache_Get (cache ex_translator) key now = None"
  by (simp_all add: ex_translator_def ex_config_def Minute_def Second_def cache_Get_def)

lemma ex_state1_form:
  "ex_state1 =
     (after_Translate (ex_env backend_ok) ''formal'' ''hello'' ''english'' ''vietnamese''
        ''xin chao'' (clock world0)
        (snd (update_metadata (Model (config ex_translator)) ''hello'' ex_response (clock world0)
           (metadata ex_translator))) ex_translator,
      saveMetadata (ex_env backend_ok)
        (after_Translate (ex_env backend_ok) ''formal'' ''hello'' ''english'' ''vietnamese''
           ''xin chao'' (clock world0)
           (snd (update_metadata (Model (config ex_translator)) ''hello'' ex_response
              (clock world0) (metadata ex_translator))) ex_translator)
        (world0\<lparr>api_requests := api_requests world0 @
           [Translate_request (ex_env backend_ok) ex_translator ''formal'' ''hello'' ''english''
              ''vietnamese'' ''Book'']\<rparr>))"
  unfolding ex_state1_def
  by (subst ex_Translate_miss[OF disjI2, OF ex_translator_fresh(6) ex_translator_fresh(1)]) simp

lemma ex_state1_no_instructions_form:
  "ex_state1_no_instructions =
     (after_Translate (ex_env backend_ok) [] ''hello'' ''english'' ''vietnamese''
        ''xin chao'' (clock world0)
        (snd (update_metadata (Model (config ex_translator)) ''hello'' ex_response (clock world0)
           (metadata ex_translator))) ex_translator,
      saveMetadata (ex_env backend_ok)
        (after_Translate (ex_env backend_ok) [] ''hello'' ''english'' ''vietnamese''
           ''xin chao'' (clock world0)
           (snd (update_metadata (Model (config ex_translator)) ''hello'' ex_response
              (clock world0) (metadata ex_translator))) ex_translator)
        (world0\<lparr>api_requests := api_requests world0 @
           [Translate_request (ex_env backend_ok) ex_translator [] ''hello'' ''english''
              ''vietnamese'' ''Book'']\<rparr>))"
  unfolding ex_state1_no_instructions_def
  by (subst ex_Translate_miss[OF disjI1, OF refl ex_translator_fresh(1)]) simp

lemma ex_state1_cache:
  "cache (fst ex_state1) =
     \<lparr>store = Map.empty,
      setBuf = [(generateCacheKey (ex_env backend_ok) (''formal'' @ ''hello'') ''english''
                   ''vietnamese'',
                 \<lparr>item_value = ''xin chao'', expiration = Some (15 * Minute)\<rparr>)]\<rparr>"
  unfolding ex_state1_form
  by (simp add: ex_translator_def ex_config_def world0_def cache_SetWithTTL_def Let_def
      Minute_def Second_def)

lemma ex_state1_no_instructions_cache:
  "cache (fst ex_state1_no_instructions) =
     \<lparr>store = Map.empty,
      setBuf = [(generateCacheKey (ex_env backend_ok) ''hello'' ''english'' ''vietnamese'',
                 \<lparr>item_value = ''xin chao'', expiration = Some (15 * Minute)\<rparr>)]\<rparr>"
  unfolding ex_state1_no_instructions_form
  by (simp add: ex_translator_def ex_config_def world0_def cache_SetWithTTL_def Let_def
      Minute_def Second_def)

lemma ex_state1_metadata:
  "ModelUsage (metadata (fst ex_state1)) \<noteq> None"
  "ModelUsage (metadata (fst ex_state1_no_instructions)) \<noteq> None"
  "TotalCalls (metadata (fst ex_state1_no_instructions)) = 1"
  unfolding ex_state1_form ex_state1_no_instructions_form
  by (simp_all add: update_metadata_Some[OF ex_translator_fresh(1)], simp add: ex_translator_def)

lemma ex_state1_no_instructions_world:
  "length (api_requests (snd ex_state1_no_instructions)) = 1"
  "clock (snd ex_state1_no_instructions) = clock world0"
  unfolding ex_state1_no_instructions_form by (simp_all add: world0_def)

lemma ex_state1_admitted_store:
  "store (cache (fst ex_state1_admitted))
     (generateCacheKey (ex_env backend_ok) (''formal'' @ ''hello'') ''english'' ''vietnamese'')
   = Some \<lparr>item_value = ''xin chao'', expiration = Some (15 * Minute)\<rparr>"
  by (simp add: ex_state1_admitted_def ex_state1_cache processItems_def admit_all_def)

lemma ex_state1_no_instructions_admitted_store:
  "store (cache (fst ex_state1_no_instructions_admitted))
     (generateCacheKey (ex_env backend_ok) ''hello'' ''english'' ''vietnamese'')
   = Some \<lparr>item_value = ''xin chao'', expiration = Some (15 * Minute)\<rparr>"
  by (simp add: ex_state1_no_instructions_admitted_def ex_state1_no_instructions_cache
      processItems_def admit_all_def)




lemma update_metadata_PromptExamples:
  "PromptExamples (snd (update_metadata model content resp now m)) = PromptExamples m
   \<or> (length (PromptExamples m) < 5
      \<and> PromptExamples (snd (update_metadata model content resp now m)) =
          PromptExamples m @ [take 100 content])"
proof (cases "ModelUsage m")
  case None
  then show ?thesis by (simp add: update_metadata_def Let_def)
next
  case (Some mu)
  show ?thesis unfolding update_metadata_Some[OF Some] by simp
qed

lemma Translate_metadata:
  "metadata (fst (snd (Translate e ctx prompt content source target bookName (a, w)))) = metadata a
   \<or> (\<exists>resp now. metadata (fst (snd (Translate e ctx prompt content source target bookName (a, w))))
         = snd (update_metadata (Model (config a)) content resp now (metadata a)))"
proof (cases "if prompt \<noteq> [] then cache_Get (cache a)
      (generateCacheKey e (prompt @ content) source target) (clock w) else None")
  case (Some v)
  then show ?thesis by (simp add: Translate_def)
next
  case None
  obtain r w1 where c: "createMessageWithRetry e ctx
      (Translate_request e a prompt content source target bookName) w = (r, w1)"
    by (cases "createMessageWithRetry e ctx
      (Translate_request e a prompt content source target bookName) w")
  show ?thesis
  proof (cases r)
    case (Inl err)
    with None c show ?thesis by (simp add: Translate_def)
  next
    case (Inr resp)
    show ?thesis
    proof (cases "Content resp = []")
      case True
      with None c Inr show ?thesis by (simp add: Translate_def)
    next
      case False
      obtain out m where u: "update_metadata (Model (config a)) content resp (clock w1)
          (metadata a) = (out, m)"
        by (cases "update_metadata (Model (config a)) content resp (clock w1) (metadata a)")
      have "metadata (fst (snd (Translate e ctx prompt content source target bookName (a, w))))
          = m"
        using None c Inr False u
        by (cases out) (simp_all add: Translate_def Let_def)
      with u have "metadata (fst (snd (Translate e ctx prompt content source target bookName
          (a, w)))) = snd (update_metadata (Model (config a)) content resp (clock w1) (metadata a))"
        by simp
      then show ?thesis by blast
    qed
  qed
qed

lemma Translate_PromptExamples:
  "PromptExamples (metadata (fst (snd (Translate e ctx prompt content source target bookName
      (a, w))))) = PromptExamples (metadata a)
   \<or> (length (PromptExamples (metadata a)) < 5
      \<and> PromptExamples (metadata (fst (snd (Translate e ctx prompt content source target
            bookName (a, w))))) = PromptExamples (metadata a) @ [take 100 content])"
proof -
  from Translate_metadata[of e ctx prompt content source target bookName a w]
  show ?thesis
  proof
    assume "metadata (fst (snd (Translate e ctx prompt content source target bookName (a, w))))
      = metadata a"
    then show ?thesis by simp
  next
    assume "\<exists>resp now. metadata (fst (snd (Translate e ctx prompt content source target
        bookName (a, w)))) = snd (update_metadata (Model (config a)) content resp now (metadata a))"
    then obtain resp now where
      "metadata (fst (snd (Translate e ctx prompt content source target
        bookName (a, w)))) = snd (update_metadata (Model (config a)) content resp now (metadata a))"
      by blast
    then show ?thesis
      using update_metadata_PromptExamples[of "Model (config a)" content resp now "metadata a"]
      by simp
  qed
qed

lemma Translate_calls_PromptExamples:
  "\<exists>new. PromptExamples (metadata (fst (Translate_calls cs (a, w)))) =
            PromptExamples (metadata a) @ new
     \<and> (new \<noteq> [] \<longrightarrow> length (PromptExamples (metadata a) @ new) \<le> 5)
     \<and> (\<forall>x \<in> set new. \<exists>c \<in> set cs. x = take 100 (call_content c))"
proof (induction cs arbitrary: a w)
  case Nil
  then show ?case by simp
next
  case (Cons c cs)
  obtain a1 w1 where s1: "snd (Translate (call_env c) (call_ctx c) (call_prompt c)
      (call_content c) (call_source c) (call_target c) (call_bookName c) (a, w)) = (a1, w1)"
    by (cases "snd (Translate (call_env c) (call_ctx c) (call_prompt c)
      (call_content c) (call_source c) (call_target c) (call_bookName c) (a, w))")
  from Cons.IH[of a1 w1] obtain new where
    n: "PromptExamples (metadata (fst (Translate_calls cs (a1, w1)))) =
            PromptExamples (metadata a1) @ new"
       "new \<noteq> [] \<longrightarrow> length (PromptExamples (metadata a1) @ new) \<le> 5"
       "\<forall>x \<in> set new. \<exists>c \<in> set cs. x = take 100 (call_content c)"
    by blast
  from Translate_PromptExamples[of "call_env c" "call_ctx c" "call_prompt c" "call_content c"
      "call_source c" "call_target c" "call_bookName c" a w] s1
  have "PromptExamples (metadata a1) = PromptExamples (metadata a)
     \<or> (length (PromptExamples (metadata a)) < 5
        \<and> PromptExamples (metadata a1) = PromptExamples (metadata a) @ [take 100 (call_content c)])"
    by simp
  then show ?case
  proof
    assume "PromptExamples (metadata a1) = PromptExamples (metadata a)"
    with n s1 show ?thesis by (intro exI[of _ new]) auto
  next
    assume "length (PromptExamples (metadata a)) < 5
        \<and> PromptExamples (metadata a1) = PromptExamples (metadata a) @ [take 100 (call_content c)]"
    with n s1 show ?thesis
      by (intro exI[of _ "take 100 (call_content c) # new"]) (cases "new = []", auto)
  qed
qed

lemma GetAnthropicTranslator_first:
  assumes "APIKey cfg \<noteq> []" and "NewCache_err e = None"
  shows "GetAnthropicTranslator e (Some cfg) (initial_globals, w) =
     ((Some (fst (loadMetadata e (new_Anthropic (configure e cfg), w))), None),
      (\<lparr>anthropic_ptr = Some (fst (loadMetadata e (new_Anthropic (configure e cfg), w))),
         anthropicOnce = True\<rparr>,
       snd (loadMetadata e (new_Anthropic (configure e cfg), w))))"
  using assms
  by (simp add: GetAnthropicTranslator_def anthropicOnce_body_def initial_globals_def Let_def
      split: prod.splits)

lemma loadMetadata_unreadable:
  "files w getMetadataFilePath = None \<or> ReadFile_err e getMetadataFilePath \<noteq> None \<Longrightarrow>
     loadMetadata e (a, w) = (a, w)"
  by (auto simp: loadMetadata_def os_ReadFile_def split: option.splits)


lemma new_Anthropic_ex_config:
  "new_Anthropic (configure (ex_env backend_ok) (ex_config\<lparr>CacheTTL := ttl\<rparr>)) = ex_translator"
  by (simp add: new_Anthropic_def configure_def ex_config_def ex_translator_def ex_env_def
      new_UsageMetadata_def Let_def)



section \<open>Claims about the retry loop\<close>


text \<open>
  Claim C2, amended: when the backend answers every attempt with a rate-limit error and
  the context is not cancelled during a backoff, \<open>createMessageWithRetry\<close> makes exactly
  \<open>maxRetries\<close> (3) attempts and returns the error \<open>max retries reached\<close> wrapping the
  error of the last attempt.
\<close>

theorem C2_retry_bound:
  assumes "always_rate_limited e req" and "never_Done ctx"
  shows "\<exists>err. CreateMessages e (length (api_requests w) + 2) req = Inl err
     \<and> fst (createMessageWithRetry e ctx req w) =
         Inl (Errorf ''max retries reached: %w'' (Some err))
     \<and> api_requests (snd (createMessageWithRetry e ctx req w)) =
         api_requests w @ replicate maxRetries req"
proof -
  have h: "\<forall>i<3. waited_out e ctx req (length (api_requests w)) i"
    using assms by (simp add: always_rate_limited_def never_Done_def waited_out_def)
  from assms obtain err where
    e: "CreateMessages e (length (api_requests w) + 2) req = Inl err"
    unfolding always_rate_limited_def by blast
  from loop_prefix[of 3 e ctx req w] h e obtain prev where
    "createMessageWithRetry e ctx req w =
       createMessageWithRetry_loop e ctx req 3 prev (backed_off req 3 w)"
    "prev = Some err"
    by (auto simp: maxRetries_def)
  then show ?thesis using e by (simp add: loop_exhausted maxRetries_def backed_off_def)
qed

text \<open>The theorem of C2 at a backend that always answers \<open>rate_limit_error\<close>, under the
  background context.\<close>

theorem C2_retry_bound_witness:
  "always_rate_limited (ex_env backend_rate_limited) ex_request
   \<and> never_Done context_Background
   \<and> fst (createMessageWithRetry (ex_env backend_rate_limited) context_Background
            ex_request world0) =
       Inl (Errorf ''max retries reached: %w'' (Some (APIError ''rate_limit_error'' ''slow down'')))
   \<and> api_requests (snd (createMessageWithRetry (ex_env backend_rate_limited)
        context_Background ex_request world0)) = [ex_request, ex_request, ex_request]"
proof -
  have a: "always_rate_limited (ex_env backend_rate_limited) ex_request"
    by (simp add: always_rate_limited_def ex_env_def backend_rate_limited_def
        IsRateLimitErr_def ErrTypeRateLimit_def)
  have b: "never_Done context_Background"
    by (simp add: never_Done_def context_Background_def)
  show ?thesis
    using C2_retry_bound[OF a b, of world0] a b
    by (simp add: ex_env_def backend_rate_limited_def world0_def maxRetries_def
        numeral_3_eq_3)
qed

text \<open>
  Claim C2 as stated fails: with the same backend and a context cancelled during the
  first backoff, the call makes one attempt and returns the context's error.
\<close>

theorem C2_cancelled_counterexample:
  "always_rate_limited (ex_env backend_rate_limited) ex_request
   \<and> createMessageWithRetry (ex_env backend_rate_limited) cancelled_context ex_request world0
       = (Inl (ContextError ''context canceled''), world0\<lparr>api_requests := [ex_request]\<rparr>)"
proof -
  have a: "always_rate_limited (ex_env backend_rate_limited) ex_request"
    by (simp add: always_rate_limited_def ex_env_def backend_rate_limited_def
        IsRateLimitErr_def ErrTypeRateLimit_def)
  have "createMessageWithRetry (ex_env backend_rate_limited) cancelled_context ex_request world0
       = (Inl (ContextError ''context canceled''), world0\<lparr>api_requests := [ex_request]\<rparr>)"
    unfolding createMessageWithRetry_def
    by (subst loop_step_cancel[where err = "APIError ''rate_limit_error'' ''slow down''"])
       (simp_all add: ex_env_def backend_rate_limited_def maxRetries_def world0_def
         cancelled_context_def IsRateLimitErr_def ErrTypeRateLimit_def)
  with a show ?thesis by simp
qed

text \<open>
  Claim C5: let the first \<open>j\<close> attempts be answered with rate-limit errors and their
  backoffs be waited out, and let attempt \<open>j\<close> fail with \<open>err\<close>. If \<open>err\<close> is not a
  rate-limit error, the call returns \<open>err\<close> itself, with no further attempt and no further
  backoff (for \<open>j = 0\<close>: one attempt, no backoff at all). If \<open>err\<close> is a rate-limit error
  and the context is cancelled during the backoff, the call returns the context's error.
  The backoffs that were waited out lasted 1 s, 2 s, ..., \<open>j\<close> s, each after a
  rate-limit error.
\<close>

theorem C5_no_retry_of_other_errors:
  assumes "j < maxRetries"
    and "\<forall>i<j. waited_out e ctx req (length (api_requests w)) i"
    and "CreateMessages e (length (api_requests w) + j) req = Inl err"
    and "\<not> IsRateLimitErr err \<or> Done ctx j"
  shows "fst (createMessageWithRetry e ctx req w) =
           Inl (if IsRateLimitErr err then Err ctx else err)
     \<and> api_requests (snd (createMessageWithRetry e ctx req w)) =
           api_requests w @ replicate (Suc j) req
     \<and> timers (snd (createMessageWithRetry e ctx req w)) =
           timers w @ map (\<lambda>i. int (Suc i) * Second) [0..<j]"
proof -
  from loop_prefix[of j e ctx req w] assms obtain prev where
    p: "createMessageWithRetry e ctx req w =
          createMessageWithRetry_loop e ctx req j prev (backed_off req j w)"
    by auto
  have c: "CreateMessages e (length (api_requests (backed_off req j w))) req = Inl err"
    using assms(3) by (simp add: length_requests_backed_off)
  note steps = loop_step_error[OF assms(1) c, of ctx prev]
      loop_step_cancel[OF assms(1) c, of ctx prev]
  show ?thesis
    unfolding p using steps assms(4)
    by (auto simp: backed_off_def replicate_append_same)
qed

text \<open>The theorem of C5 at a backend that answers \<open>rate_limit_error\<close> once and
  \<open>authentication_error\<close> then: two attempts and one backoff of one second.\<close>

theorem C5_no_retry_of_other_errors_witness:
  "waited_out (ex_env backend_limited_then_denied) context_Background ex_request 0 0
   \<and> \<not> IsRateLimitErr (APIError ''authentication_error'' ''invalid x-api-key'')
   \<and> fst (createMessageWithRetry (ex_env backend_limited_then_denied) context_Background
            ex_request world0) = Inl (APIError ''authentication_error'' ''invalid x-api-key'')
   \<and> api_requests (snd (createMessageWithRetry (ex_env backend_limited_then_denied)
        context_Background ex_request world0)) = [ex_request, ex_request]
   \<and> timers (snd (createMessageWithRetry (ex_env backend_limited_then_denied)
        context_Background ex_request world0)) = [Second]"
proof -
  have a: "waited_out (ex_env backend_limited_then_denied) context_Background ex_request 0 0"
    by (simp add: waited_out_def ex_env_def backend_limited_then_denied_def
        IsRateLimitErr_def ErrTypeRateLimit_def context_Background_def)
  have b: "\<not> IsRateLimitErr (APIError ''authentication_error'' ''invalid x-api-key'')"
    by (simp add: IsRateLimitErr_def ErrTypeRateLimit_def)
  have c: "\<forall>i<1. waited_out (ex_env backend_limited_then_denied) context_Background
      ex_request (length (api_requests world0)) i"
    using a by (simp add: world0_def)
  show ?thesis
    using C5_no_retry_of_other_errors[of 1 "ex_env backend_limited_then_denied"
        context_Background ex_request world0
        "APIError ''authentication_error'' ''invalid x-api-key''", OF _ c] a b
    by (simp add: maxRetries_def ex_env_def backend_limited_then_denied_def world0_def)
qed

section \<open>Claims about the cache\<close>

text \<open>
  Claim C1, amended: let a call of \<open>Translate\<close> with non-empty instructions obtain its
  translation from the backend, under a positive time-to-live (the constructor sets 15
  minutes). The call hands the translation to the cache under the key of its content,
  instructions and languages, to expire one time-to-live after its completion: the item
  replaces an entry of the store at once, or is queued, and is in the store once the
  cache has taken it from the queue and admitted it. A later call with the same
  content, instructions and languages (whatever its context, book name and
  configuration) that finds this entry in the store, at a time within the time-to-live
  of the first call's completion, returns the cached translation and changes nothing,
  so the backend is not invoked. A later call after the time-to-live has expired, the
  store holding this entry or none for the key, invokes the backend again. (With empty
  instructions the cache is not read: see the counterexample.)
\<close>

theorem C1_cache_within_ttl:
  assumes "Translate e ctx prompt content source target bookName (a, w) = (Return (Inr t), (a1, w1))"
    and "api_requests w1 \<noteq> api_requests w"
    and "prompt \<noteq> []"
    and "0 < CacheTTL (config a)"
  shows
   "((store (cache a1) (generateCacheKey e (prompt @ content) source target) =
        Some \<lparr>item_value = t, expiration = Some (clock w1 + CacheTTL (config a))\<rparr>
      \<and> setBuf (cache a1) = setBuf (cache a))
     \<or> (store (cache a1) (generateCacheKey e (prompt @ content) source target) = None
        \<and> setBuf (cache a1) = setBuf (cache a) @
             [(generateCacheKey e (prompt @ content) source target,
               \<lparr>item_value = t, expiration = Some (clock w1 + CacheTTL (config a))\<rparr>)]
        \<and> (admit (generateCacheKey e (prompt @ content) source target) \<longrightarrow>
             store (processItems admit (cache a1))
               (generateCacheKey e (prompt @ content) source target) =
               Some \<lparr>item_value = t, expiration = Some (clock w1 + CacheTTL (config a))\<rparr>)))
    \<and> (store (cache a2) (generateCacheKey e (prompt @ content) source target) =
          Some \<lparr>item_value = t, expiration = Some (clock w1 + CacheTTL (config a))\<rparr>
        \<and> clock w2 \<le> clock w1 + CacheTTL (config a)
        \<longrightarrow> Translate e ctx2 prompt content source target bookName2 (a2, w2)
              = (Return (Inr t), (a2, w2)))
    \<and> ((store (cache a2) (generateCacheKey e (prompt @ content) source target) = None
          \<or> store (cache a2) (generateCacheKey e (prompt @ content) source target) =
               Some \<lparr>item_value = t, expiration = Some (clock w1 + CacheTTL (config a))\<rparr>)
        \<and> clock w1 + CacheTTL (config a) < clock w2
        \<longrightarrow> length (api_requests w2) <
              length (api_requests (snd (snd (Translate e ctx2 prompt content source target
                bookName2 (a2, w2))))))"
proof -
  let ?K = "generateCacheKey e (prompt @ content) source target"
  let ?it = "\<lparr>item_value = t, expiration = Some (clock w1 + CacheTTL (config a))\<rparr>"
  from Translate_backend[OF assms(1,2)] obtain resp w0 m where
    a1: "a1 = after_Translate e prompt content source target t (clock w0) m a"
    and w1: "w1 = saveMetadata e a1 w0"
    by blast
  have clk: "clock w0 = clock w1" unfolding w1 by simp
  have c1: "cache a1 = cache_SetWithTTL (cache a) ?K t (CacheTTL (config a)) (clock w1)"
    unfolding a1 by (simp add: clk)
  note set = cache_SetWithTTL_positive[OF assms(4), of "cache a" ?K t "clock w1"]
  have first: "(store (cache a1) ?K = Some ?it \<and> setBuf (cache a1) = setBuf (cache a))
     \<or> (store (cache a1) ?K = None \<and> setBuf (cache a1) = setBuf (cache a) @ [(?K, ?it)]
        \<and> (admit ?K \<longrightarrow> store (processItems admit (cache a1)) ?K = Some ?it))"
  proof (cases "store (cache a) ?K")
    case None
    then have b: "setBuf (cache a1) = setBuf (cache a) @ [(?K, ?it)]" "store (cache a1) ?K = None"
      unfolding c1 set by simp_all
    then show ?thesis using processItems_last[of admit ?K "cache a1" "setBuf (cache a)" ?it]
      by simp
  next
    case (Some old)
    then show ?thesis unfolding c1 set by simp
  qed
  have hit: "Translate e ctx2 prompt content source target bookName2 (a2, w2)
              = (Return (Inr t), (a2, w2))"
    if "store (cache a2) ?K = Some ?it" "clock w2 \<le> clock w1 + CacheTTL (config a)"
    using Translate_hit[OF assms(3), of a2 e content source target w2 t ctx2 bookName2]
      cache_Get_item[OF that(1), of "clock w2"] that(2)
    by simp
  have again: "length (api_requests w2) <
       length (api_requests (snd (snd (Translate e ctx2 prompt content source target
                bookName2 (a2, w2)))))"
    if "store (cache a2) ?K = None \<or> store (cache a2) ?K = Some ?it"
      "clock w1 + CacheTTL (config a) < clock w2"
  proof -
    have "cache_Get (cache a2) ?K (clock w2) = None"
      using that cache_Get_item[of "cache a2" ?K t "clock w1 + CacheTTL (config a)" "clock w2"]
        cache_Get_absent[of "cache a2" ?K "clock w2"]
      by auto
    from Translate_miss_requests[OF disjI2, OF this, of ctx2 bookName2]
    show ?thesis by auto
  qed
  show ?thesis using first hit again by blast
qed

text \<open>The theorem of C1 on the example translator, whose cache is empty: the first call
  queues its item; once the cache has admitted it, a second call ten minutes after the
  first returns the cached translation, and one sixteen minutes after the first invokes
  the backend again.\<close>

theorem C1_cache_within_ttl_witness:
  "Translate (ex_env backend_ok) context_Background ''formal'' ''hello'' ''english''
       ''vietnamese'' ''Book'' (ex_translator, world0) = (Return (Inr ''xin chao''), ex_state1)
   \<and> api_requests (snd ex_state1) \<noteq> api_requests world0
   \<and> store (cache (fst ex_state1))
        (generateCacheKey (ex_env backend_ok) (''formal'' @ ''hello'') ''english''
           ''vietnamese'') = None
   \<and> Translate (ex_env backend_ok) cancelled_context ''formal'' ''hello'' ''english''
        ''vietnamese'' ''Another book''
        (fst ex_state1_admitted, (snd ex_state1_admitted)\<lparr>clock := 10 * Minute\<rparr>)
       = (Return (Inr ''xin chao''),
          (fst ex_state1_admitted, (snd ex_state1_admitted)\<lparr>clock := 10 * Minute\<rparr>))
   \<and> length (api_requests (snd ex_state1_admitted)) <
       length (api_requests (snd (snd (Translate (ex_env backend_ok) context_Background
         ''formal'' ''hello'' ''english'' ''vietnamese'' ''Book''
         (fst ex_state1_admitted, (snd ex_state1_admitted)\<lparr>clock := 16 * Minute\<rparr>)))))"
proof -
  have first: "Translate (ex_env backend_ok) context_Background ''formal'' ''hello'' ''english''
       ''vietnamese'' ''Book'' (ex_translator, world0)
     = (Return (Inr ''xin chao''), (fst ex_state1, snd ex_state1))"
    using ex_state1_eq by simp
  have p: "''formal'' \<noteq> []" by simp
  have q: "store (cache (fst ex_state1))
        (generateCacheKey (ex_env backend_ok) (''formal'' @ ''hello'') ''english''
           ''vietnamese'') = None"
    by (simp add: ex_state1_cache)
  have w: "snd ex_state1_admitted = snd ex_state1" by (simp add: ex_state1_admitted_def)
  note inst = C1_cache_within_ttl[OF first ex_state1_facts(1) p ex_translator_fresh(4),
      where ?a2.0 = "fst ex_state1_admitted"]
  show ?thesis
    using inst[where ?w2.0 = "(snd ex_state1_admitted)\<lparr>clock := 10 * Minute\<rparr>"
        and ?ctx2.0 = cancelled_context and ?bookName2.0 = "''Another book''"]
      inst[where ?w2.0 = "(snd ex_state1_admitted)\<lparr>clock := 16 * Minute\<rparr>"
        and ?ctx2.0 = context_Background and ?bookName2.0 = "''Book''"]
      ex_state1_admitted_store ex_state1_eq ex_state1_facts(1) q
    by (simp add: w ex_state1_facts(2) ex_translator_fresh(5) Minute_def Second_def)
qed

text \<open>
  Claim C1 as stated fails: \<open>Translate\<close> reads the cache only \<open>if prompt != ""\<close>. Of two
  identical calls with empty instructions, the second is made at the instant the first
  completed, with the first call's entry admitted to the store and live; each of them
  invokes the backend.
\<close>

theorem C1_empty_instructions_counterexample:
  "fst (Translate (ex_env backend_ok) context_Background [] ''hello'' ''english''
          ''vietnamese'' ''Book'' (ex_translator, world0)) = Return (Inr ''xin chao'')
   \<and> length (api_requests (snd ex_state1_no_instructions)) = 1
   \<and> cache_Get (cache (fst ex_state1_no_instructions_admitted))
        (generateCacheKey (ex_env backend_ok) ([] @ ''hello'') ''english'' ''vietnamese'')
        (clock (snd ex_state1_no_instructions_admitted)) = Some ''xin chao''
   \<and> clock (snd ex_state1_no_instructions_admitted) = clock world0
   \<and> fst (Translate (ex_env backend_ok) context_Background [] ''hello'' ''english''
          ''vietnamese'' ''Book'' ex_state1_no_instructions_admitted) = Return (Inr ''xin chao'')
   \<and> length (api_requests (snd (snd (Translate (ex_env backend_ok) context_Background []
          ''hello'' ''english'' ''vietnamese'' ''Book'' ex_state1_no_instructions_admitted))))
       = 2"
proof -
  obtain a2 w2 where aw: "ex_state1_no_instructions_admitted = (a2, w2)"
    by (cases ex_state1_no_instructions_admitted)
  have a2: "a2 = (fst ex_state1_no_instructions)
        \<lparr>cache := processItems admit_all (cache (fst ex_state1_no_instructions))\<rparr>"
    and w2: "w2 = snd ex_state1_no_instructions"
    using aw by (simp_all add: ex_state1_no_instructions_admitted_def)
  have m2: "ModelUsage (metadata a2) \<noteq> None"
    unfolding a2 using ex_state1_metadata(2) by simp
  then obtain mu2 where mu2: "ModelUsage (metadata a2) = Some mu2" by auto
  have g: "cache_Get (cache a2)
        (generateCacheKey (ex_env backend_ok) ([] @ ''hello'') ''english'' ''vietnamese'')
        (clock w2) = Some ''xin chao''"
    using cache_Get_item[OF ex_state1_no_instructions_admitted_store, of "clock w2"]
    by (simp add: aw w2 ex_state1_no_instructions_world world0_def Minute_def Second_def)
  note e2 = ex_Translate_miss[where prompt = "[]" and ctx = context_Background
      and content = "''hello''" and source = "''english''" and target = "''vietnamese''"
      and w = w2 and bookName = "''Book''", OF disjI1, OF refl mu2]
  show ?thesis
    unfolding aw e2 using g ex_state1_no_instructions_world
    by (simp add: w2 ex_state1_no_instructions_eq)
qed

section \<open>Claims about the cache key\<close>

text \<open>
  Claim C4: the key under which \<open>Translate\<close> reads and writes the cache is the hex
  encoding of the hash of \<open>prompt + content + ":" + source + ":" + target\<close>, a function
  of the instructions, the content and the two languages only. Whatever the book name,
  the context and the configuration of the translator: a call with non-empty
  instructions returns what \<open>Get\<close> finds under this key, and invokes the backend when
  \<open>Get\<close> finds nothing under it; and a call that obtains its translation from the
  backend hands it to \<open>SetWithTTL\<close> under this key.
\<close>

theorem C4_cache_key:
  "(prompt \<noteq> [] \<and>
      cache_Get (cache a)
        (hex_EncodeToString (sha256_Sum256 e (prompt @ content @ '':'' @ source @ '':'' @ target)))
        (clock w) = Some v
      \<longrightarrow> Translate e ctx prompt content source target bookName (a, w) = (Return (Inr v), (a, w)))
   \<and> (prompt \<noteq> [] \<and>
      cache_Get (cache a)
        (hex_EncodeToString (sha256_Sum256 e (prompt @ content @ '':'' @ source @ '':'' @ target)))
        (clock w) = None
      \<longrightarrow> length (api_requests w) <
            length (api_requests (snd (snd (Translate e ctx prompt content source target
              bookName (a, w))))))
   \<and> (Translate e ctx prompt content source target bookName (a, w) = (Return (Inr t), (a', w'))
        \<and> api_requests w' \<noteq> api_requests w
      \<longrightarrow> cache a' =
            cache_SetWithTTL (cache a)
              (hex_EncodeToString
                 (sha256_Sum256 e (prompt @ content @ '':'' @ source @ '':'' @ target)))
              t (CacheTTL (config a)) (clock w'))"
proof (intro conjI impI)
  assume "prompt \<noteq> [] \<and>
      cache_Get (cache a)
        (hex_EncodeToString (sha256_Sum256 e (prompt @ content @ '':'' @ source @ '':'' @ target)))
        (clock w) = Some v"
  then show "Translate e ctx prompt content source target bookName (a, w) = (Return (Inr v), (a, w))"
    using Translate_hit[of prompt a e content source target w v ctx bookName]
    by (simp add: generateCacheKey_def)
next
  assume "prompt \<noteq> [] \<and>
      cache_Get (cache a)
        (hex_EncodeToString (sha256_Sum256 e (prompt @ content @ '':'' @ source @ '':'' @ target)))
        (clock w) = None"
  then have "cache_Get (cache a) (generateCacheKey e (prompt @ content) source target) (clock w)
      = None"
    by (simp add: generateCacheKey_def)
  from Translate_miss_requests[OF disjI2, OF this, of ctx bookName]
  show "length (api_requests w) <
            length (api_requests (snd (snd (Translate e ctx prompt content source target
              bookName (a, w)))))"
    by auto
next
  assume h: "Translate e ctx prompt content source target bookName (a, w) = (Return (Inr t), (a', w'))
        \<and> api_requests w' \<noteq> api_requests w"
  from Translate_backend[of e ctx prompt content source target bookName a w t a' w'] h
  obtain resp w1 m where
    a': "a' = after_Translate e prompt content source target t (clock w1) m a"
    and w': "w' = saveMetadata e a' w1"
    by blast
  show "cache a' =
            cache_SetWithTTL (cache a)
              (hex_EncodeToString
                 (sha256_Sum256 e (prompt @ content @ '':'' @ source @ '':'' @ target)))
              t (CacheTTL (config a)) (clock w')"
    unfolding w' by (simp add: a' generateCacheKey_def)
qed

text \<open>The theorem of C4 on the example translator: the first call hands its
  translation to the cache under the key; with that entry in the store, a call for
  another book under other guidelines reads the same key and returns it.\<close>

theorem C4_cache_key_witness:
  "cache_Get (cache ((fst ex_state1_admitted)
       \<lparr>config := (config (fst ex_state1_admitted))\<lparr>TranslationGuidelines := ''Plainly.''\<rparr>\<rparr>))
     (hex_EncodeToString (sha256_Sum256 (ex_env backend_ok)
        (''formal'' @ ''hello'' @ '':'' @ ''english'' @ '':'' @ ''vietnamese'')))
     (clock (snd ex_state1_admitted)) = Some ''xin chao''
   \<and> Translate (ex_env backend_ok) context_Background ''formal'' ''hello'' ''english''
       ''vietnamese'' ''Another book''
       ((fst ex_state1_admitted)
          \<lparr>config := (config (fst ex_state1_admitted))\<lparr>TranslationGuidelines := ''Plainly.''\<rparr>\<rparr>,
        snd ex_state1_admitted)
     = (Return (Inr ''xin chao''),
        ((fst ex_state1_admitted)
           \<lparr>config := (config (fst ex_state1_admitted))\<lparr>TranslationGuidelines := ''Plainly.''\<rparr>\<rparr>,
         snd ex_state1_admitted))
   \<and> cache (fst ex_state1) =
       cache_SetWithTTL (cache ex_translator)
         (hex_EncodeToString (sha256_Sum256 (ex_env backend_ok)
            (''formal'' @ ''hello'' @ '':'' @ ''english'' @ '':'' @ ''vietnamese'')))
         ''xin chao'' (CacheTTL (config ex_translator)) (clock (snd ex_state1))"
proof -
  let ?a2 = "(fst ex_state1_admitted)
       \<lparr>config := (config (fst ex_state1_admitted))\<lparr>TranslationGuidelines := ''Plainly.''\<rparr>\<rparr>"
  let ?K = "hex_EncodeToString (sha256_Sum256 (ex_env backend_ok)
        (''formal'' @ ''hello'' @ '':'' @ ''english'' @ '':'' @ ''vietnamese''))"
  have first: "Translate (ex_env backend_ok) context_Background ''formal'' ''hello'' ''english''
       ''vietnamese'' ''Book'' (ex_translator, world0)
     = (Return (Inr ''xin chao''), (fst ex_state1, snd ex_state1))"
    using ex_state1_eq by simp
  have w: "snd ex_state1_admitted = snd ex_state1" by (simp add: ex_state1_admitted_def)
  have k: "generateCacheKey (ex_env backend_ok) (''formal'' @ ''hello'') ''english''
      ''vietnamese'' = ?K"
    unfolding generateCacheKey_def by simp
  have st: "store (cache ?a2) ?K =
      Some \<lparr>item_value = ''xin chao'', expiration = Some (15 * Minute)\<rparr>"
    using ex_state1_admitted_store unfolding k by simp
  have g: "cache_Get (cache ?a2) ?K (clock (snd ex_state1_admitted)) = Some ''xin chao''"
    unfolding cache_Get_item[OF st] w ex_state1_facts(2)
    by (simp add: Minute_def Second_def)
  have p: "''formal'' \<noteq> []" by simp
  have hit: "Translate (ex_env backend_ok) context_Background ''formal'' ''hello'' ''english''
       ''vietnamese'' ''Another book'' (?a2, snd ex_state1_admitted)
     = (Return (Inr ''xin chao''), (?a2, snd ex_state1_admitted))"
    by (rule C4_cache_key[THEN conjunct1, THEN mp, OF conjI, OF p g])
  have stored: "cache (fst ex_state1) =
       cache_SetWithTTL (cache ex_translator) ?K
         ''xin chao'' (CacheTTL (config ex_translator)) (clock (snd ex_state1))"
    by (rule C4_cache_key[THEN conjunct2, THEN conjunct2, THEN mp, OF conjI,
          OF first ex_state1_facts(1)])
  from g hit stored show ?thesis by (intro conjI)
qed

section \<open>Claims about the usage metadata\<close>




text \<open>
  Claim C8: from a translator whose \<open>PromptExamples\<close> has at most 5 entries, after every
  sequence of calls of \<open>Translate\<close> (whatever each returns) the list has at most 5
  entries; it is the list at the start followed by new entries, each the first 100
  bytes (all of it, if shorter) of the content of one of the calls. A call that returns
  a translation obtained from the backend appends the first 100 bytes of its content
  when the list has fewer than 5 entries, and leaves the list as it is otherwise.
\<close>

theorem C8_prompt_examples_bounded:
  assumes "length (PromptExamples (metadata a)) \<le> 5"
  shows "length (PromptExamples (metadata (fst (Translate_calls cs (a, w))))) \<le> 5
    \<and> (\<exists>new. PromptExamples (metadata (fst (Translate_calls cs (a, w)))) =
            PromptExamples (metadata a) @ new
          \<and> (\<forall>x \<in> set new. \<exists>c \<in> set cs. x = take 100 (call_content c) \<and> length x \<le> 100))
    \<and> (Translate e ctx prompt content source target bookName (a, w) = (Return (Inr t), (a', w'))
        \<and> api_requests w' \<noteq> api_requests w
        \<longrightarrow> PromptExamples (metadata a') =
              (if length (PromptExamples (metadata a)) < 5
               then PromptExamples (metadata a) @ [take 100 content]
               else PromptExamples (metadata a)))"
proof -
  from Translate_calls_PromptExamples[of cs a w] obtain new where
    n: "PromptExamples (metadata (fst (Translate_calls cs (a, w)))) =
            PromptExamples (metadata a) @ new"
       "new \<noteq> [] \<longrightarrow> length (PromptExamples (metadata a) @ new) \<le> 5"
       "\<forall>x \<in> set new. \<exists>c \<in> set cs. x = take 100 (call_content c)"
    by blast
  have 1: "length (PromptExamples (metadata (fst (Translate_calls cs (a, w))))) \<le> 5"
    using n(1,2) assms by (cases "new = []") auto
  have 2: "\<exists>new. PromptExamples (metadata (fst (Translate_calls cs (a, w)))) =
            PromptExamples (metadata a) @ new
          \<and> (\<forall>x \<in> set new. \<exists>c \<in> set cs. x = take 100 (call_content c) \<and> length x \<le> 100)"
    using n(1,3) by (intro exI[of _ new]) auto
  have 3: "PromptExamples (metadata a') =
              (if length (PromptExamples (metadata a)) < 5
               then PromptExamples (metadata a) @ [take 100 content]
               else PromptExamples (metadata a))"
    if h: "Translate e ctx prompt content source target bookName (a, w) = (Return (Inr t), (a', w'))"
       "api_requests w' \<noteq> api_requests w"
  proof -
    from Translate_backend[OF h] obtain resp w1 m where
      "prompt = [] \<or> cache_Get (cache a)
        (generateCacheKey e (prompt @ content) source target) (clock w) = None"
      and "createMessageWithRetry e ctx
        (Translate_request e a prompt content source target bookName) w = (Inr resp, w1)"
      and "Content resp \<noteq> []" and "t = GetFirstContentText resp"
      and u: "update_metadata (Model (config a)) content resp (clock w1) (metadata a) = (Return (), m)"
      and a': "a' = after_Translate e prompt content source target t (clock w1) m a"
      and "w' = saveMetadata e a' w1"
      by blast
    show ?thesis unfolding a' using update_metadata_inv(6)[OF u] by simp
  qed
  from 1 2 3 show ?thesis by blast
qed

text \<open>The theorem of C8 on the example translator, whose list is empty: after two calls
  the list has at most 5 entries, and one call with a content of 150 bytes stores its
  first 100 bytes.\<close>

theorem C8_prompt_examples_bounded_witness:
  "length (PromptExamples (metadata ex_translator)) \<le> 5
   \<and> length (PromptExamples (metadata (fst (Translate_calls [ex_long_call, ex_long_call]
        (ex_translator, world0))))) \<le> 5
   \<and> PromptExamples (metadata (fst (Translate_calls [ex_long_call] (ex_translator, world0))))
       = [replicate 100 CHR ''a'']"
proof -
  have h: "length (PromptExamples (metadata ex_translator)) \<le> 5"
    by (simp add: ex_translator_def)
  have e: "Translate (ex_env backend_ok) context_Background ''formal'' (replicate 150 CHR ''a'')
      ''english'' ''vietnamese'' ''Book'' (ex_translator, world0) =
     (Return (Inr ''xin chao''),
      (fst (Translate_calls [ex_long_call] (ex_translator, world0)),
       snd (Translate_calls [ex_long_call] (ex_translator, world0))))"
    by (simp add: ex_long_call_def
        ex_Translate_miss[OF disjI2, OF ex_translator_fresh(6) ex_translator_fresh(1)])
  have r: "api_requests (snd (Translate_calls [ex_long_call] (ex_translator, world0)))
      \<noteq> api_requests world0"
    by (simp add: ex_long_call_def world0_def
        ex_Translate_miss[OF disjI2, OF ex_translator_fresh(6) ex_translator_fresh(1)])
  have p: "PromptExamples (metadata ex_translator) = []" by (simp add: ex_translator_def)
  have "PromptExamples (metadata (fst (Translate_calls [ex_long_call] (ex_translator, world0))))
       = [replicate 100 CHR ''a'']"
    using C8_prompt_examples_bounded[OF h, THEN conjunct2, THEN conjunct2, THEN mp,
        OF conjI, OF e r]
    by (simp add: p)
  with h C8_prompt_examples_bounded[OF h, THEN conjunct1,
      of "[ex_long_call, ex_long_call]" world0]
  show ?thesis by (intro conjI)
qed

section \<open>Claims about the constructor\<close>

text \<open>
  Claim C10: once \<open>anthropicOnce\<close> has run, a call of \<open>GetAnthropicTranslator\<close> returns
  the package variable with a nil error, whatever its configuration, and changes
  nothing; and after any call \<open>anthropicOnce\<close> has run. So the initialisation runs at
  most once. If the first call of the process returns an error, it returns a nil
  translator and leaves the package variable nil, and every later call, whatever its
  configuration, returns a nil translator with a nil error. An empty API key makes the
  first call fail so, with the error \<open>missing ANTHROPIC_KEY\<close>.
\<close>

theorem C10_initialized_once:
  "(anthropicOnce g \<longrightarrow>
      GetAnthropicTranslator e cfg (g, w) = ((anthropic_ptr g, None), (g, w)))
   \<and> anthropicOnce (fst (snd (GetAnthropicTranslator e cfg (g, w))))
   \<and> (GetAnthropicTranslator e cfg (initial_globals, w) = ((r, Some err), (g1, w1))
      \<longrightarrow> r = None \<and> g1 = \<lparr>anthropic_ptr = None, anthropicOnce = True\<rparr>
          \<and> GetAnthropicTranslator e' cfg' (g1, w') = ((None, None), (g1, w')))
   \<and> (APIKey (case cfg of None \<Rightarrow> default_Config e | Some c \<Rightarrow> c) = []
      \<longrightarrow> GetAnthropicTranslator e cfg (initial_globals, w) =
            ((None, Some (ErrorString ''missing ANTHROPIC_KEY'')),
             (\<lparr>anthropic_ptr = None, anthropicOnce = True\<rparr>, w)))"
proof -
  have 1: "GetAnthropicTranslator e cfg (g, w) = ((anthropic_ptr g, None), (g, w))"
    if "anthropicOnce g"
    using that by (simp add: GetAnthropicTranslator_def)
  have 2: "anthropicOnce (fst (snd (GetAnthropicTranslator e cfg (g, w))))"
    by (simp add: GetAnthropicTranslator_def split: prod.splits option.splits)
  have 3: "r = None \<and> g1 = \<lparr>anthropic_ptr = None, anthropicOnce = True\<rparr>
          \<and> GetAnthropicTranslator e' cfg' (g1, w') = ((None, None), (g1, w'))"
    if h: "GetAnthropicTranslator e cfg (initial_globals, w) = ((r, Some err), (g1, w1))"
  proof -
    obtain berr g0 w0 where
      b: "anthropicOnce_body e cfg (initial_globals, w) = (berr, (g0, w0))"
      by (cases "anthropicOnce_body e cfg (initial_globals, w)") auto
    have g0: "berr \<noteq> None \<Longrightarrow> g0 = initial_globals"
      using b
      by (auto simp: anthropicOnce_body_def Let_def split: if_splits option.splits prod.splits)
    from h b have "berr = Some err" "r = None" "g1 = g0\<lparr>anthropicOnce := True\<rparr>"
      by (auto simp: GetAnthropicTranslator_def initial_globals_def split: option.splits)
    with g0 have g1: "g1 = \<lparr>anthropic_ptr = None, anthropicOnce = True\<rparr>"
      by (simp add: initial_globals_def)
    show ?thesis
      using \<open>r = None\<close> g1 by (simp add: GetAnthropicTranslator_def)
  qed
  have 4: "GetAnthropicTranslator e cfg (initial_globals, w) =
            ((None, Some (ErrorString ''missing ANTHROPIC_KEY'')),
             (\<lparr>anthropic_ptr = None, anthropicOnce = True\<rparr>, w))"
    if "APIKey (case cfg of None \<Rightarrow> default_Config e | Some c \<Rightarrow> c) = []"
    using that
    by (simp add: GetAnthropicTranslator_def anthropicOnce_body_def initial_globals_def Let_def)
  from 1 2 3 4 show ?thesis by blast
qed

text \<open>The theorem of C10: a first call with an empty API key fails; a second call with a
  good configuration returns nil and nil.\<close>

theorem C10_initialized_once_witness:
  "GetAnthropicTranslator (ex_env backend_ok) (Some (ex_config\<lparr>APIKey := []\<rparr>))
       (initial_globals, world0)
     = ((None, Some (ErrorString ''missing ANTHROPIC_KEY'')),
        (\<lparr>anthropic_ptr = None, anthropicOnce = True\<rparr>, world0))
   \<and> GetAnthropicTranslator (ex_env backend_ok) (Some ex_config)
       (\<lparr>anthropic_ptr = None, anthropicOnce = True\<rparr>, world0)
     = ((None, None), (\<lparr>anthropic_ptr = None, anthropicOnce = True\<rparr>, world0))"
proof -
  have k: "APIKey (case Some (ex_config\<lparr>APIKey := []\<rparr>) of
      None \<Rightarrow> default_Config (ex_env backend_ok) | Some c \<Rightarrow> c) = []"
    by simp
  have first: "GetAnthropicTranslator (ex_env backend_ok) (Some (ex_config\<lparr>APIKey := []\<rparr>))
       (initial_globals, world0)
     = ((None, Some (ErrorString ''missing ANTHROPIC_KEY'')),
        (\<lparr>anthropic_ptr = None, anthropicOnce = True\<rparr>, world0))"
    by (rule C10_initialized_once[THEN conjunct2, THEN conjunct2, THEN conjunct2, THEN mp, OF k])
  have "GetAnthropicTranslator (ex_env backend_ok) (Some ex_config)
       (\<lparr>anthropic_ptr = None, anthropicOnce = True\<rparr>, world0)
     = ((None, None), (\<lparr>anthropic_ptr = None, anthropicOnce = True\<rparr>, world0))"
    using C10_initialized_once[THEN conjunct2, THEN conjunct2, THEN conjunct1, THEN mp,
        OF first, of "ex_env backend_ok" "Some ex_config" world0]
    by simp
  with first show ?thesis by (intro conjI)
qed

section \<open>Claims about loading the metadata\<close>



section \<open>Claims about the time-to-live\<close>

text \<open>
  Claim C3 does not hold of the code: the constructor assigns \<open>15 * time.Minute\<close> to
  \<open>cfg.CacheTTL\<close> whatever the caller supplied. Built from a configuration with a
  time-to-live of one minute, the translator has one of 15 minutes, and a translation
  stored at time 0 expires at 15 minutes.
\<close>

theorem C3_supplied_ttl_overwritten:
  "GetAnthropicTranslator (ex_env backend_ok) (Some (ex_config\<lparr>CacheTTL := 1 * Minute\<rparr>))
       (initial_globals, world0)
     = ((Some ex_translator, None),
        (\<lparr>anthropic_ptr = Some ex_translator, anthropicOnce = True\<rparr>, world0))
   \<and> CacheTTL (config ex_translator) = 15 * Minute
   \<and> Translate (ex_env backend_ok) context_Background ''formal'' ''hello'' ''english''
       ''vietnamese'' ''Book'' (ex_translator, world0) = (Return (Inr ''xin chao''), ex_state1)
   \<and> clock (snd ex_state1) = 0
   \<and> setBuf (cache (fst ex_state1)) =
       [(generateCacheKey (ex_env backend_ok) (''formal'' @ ''hello'') ''english''
           ''vietnamese'',
         \<lparr>item_value = ''xin chao'', expiration = Some (15 * Minute)\<rparr>)]"
proof -
  have k: "APIKey (ex_config\<lparr>CacheTTL := 1 * Minute\<rparr>) \<noteq> []"
    "NewCache_err (ex_env backend_ok) = None"
    by (simp_all add: ex_config_def ex_env_def)
  have l: "loadMetadata (ex_env backend_ok) (ex_translator, world0) = (ex_translator, world0)"
    by (rule loadMetadata_unreadable) (simp add: world0_def)
  have 1: "GetAnthropicTranslator (ex_env backend_ok)
       (Some (ex_config\<lparr>CacheTTL := 1 * Minute\<rparr>)) (initial_globals, world0)
     = ((Some ex_translator, None),
        (\<lparr>anthropic_ptr = Some ex_translator, anthropicOnce = True\<rparr>, world0))"
    unfolding GetAnthropicTranslator_first[OF k] new_Anthropic_ex_config l by simp
  have 5: "setBuf (cache (fst ex_state1)) =
       [(generateCacheKey (ex_env backend_ok) (''formal'' @ ''hello'') ''english''
           ''vietnamese'',
         \<lparr>item_value = ''xin chao'', expiration = Some (15 * Minute)\<rparr>)]"
    by (simp add: ex_state1_cache)
  from 1 ex_translator_fresh(5) ex_state1_eq ex_state1_facts(2) 5
  show ?thesis by (intro conjI)
qed

section \<open>Claims about the server\<close>



end
